theory Spec2Isabelle
  imports Main "HOL-Library.Word" "HOL-Library.Sublist"
begin

section \<open>JavaScript values used by the chat component\<close>

text \<open>
  A JavaScript string is a sequence of 16-bit code units; \<open>includes\<close>, \<open>endsWith\<close>,
  \<open>===\<close> and \<open>+\<close> all work on code units. Source literals outside ASCII are written
  out as their code units.
\<close>

type_synonym jsstring = "16 word list"

definition ascii :: "string \<Rightarrow> jsstring" where
  "ascii cs = map of_char cs"

text \<open>\<open>s.includes(t)\<close>: \<open>t\<close> occurs in \<open>s\<close> as a contiguous run of code units.\<close>

fun includes_js :: "jsstring \<Rightarrow> jsstring \<Rightarrow> bool" where
  "includes_js [] t = (t = [])"
| "includes_js (c # cs) t = (prefix t (c # cs) \<or> includes_js cs t)"

text \<open>\<open>s.endsWith(t)\<close>.\<close>

definition endsWith :: "jsstring \<Rightarrow> jsstring \<Rightarrow> bool" where
  "endsWith s t = prefix (rev t) (rev s)"

text \<open>The code units \<open>String.prototype.trim\<close> strips: white space and line terminators.\<close>

definition isWhiteSpace :: "16 word \<Rightarrow> bool" where
  "isWhiteSpace c \<longleftrightarrow>
     c \<in> set [0x0009, 0x000A, 0x000B, 0x000C, 0x000D, 0x0020, 0x00A0, 0x1680,
               0x2000, 0x2001, 0x2002, 0x2003, 0x2004, 0x2005, 0x2006, 0x2007,
               0x2008, 0x2009, 0x200A, 0x2028, 0x2029, 0x202F, 0x205F, 0x3000, 0xFEFF]"

definition trim :: "jsstring \<Rightarrow> jsstring" where
  "trim s = rev (dropWhile isWhiteSpace (rev (dropWhile isWhiteSpace s)))"

text \<open>The literal \<open>'\n'\<close>.\<close>

definition newline :: jsstring where
  "newline = [0x000A]"

text \<open>The literal of line 178 of Generator.tsx: U+26A0 U+FE0F, the warning sign.\<close>

definition errorMarker :: jsstring where
  "errorMarker = [0x26A0, 0xFE0F]"

text \<open>The prefix of the template literal of line 210 of Generator.tsx.\<close>

definition errorPrefix :: jsstring where
  "errorPrefix = [0x51FA, 0x73B0, 0x9519, 0x8BEF, 0xFF1A]"

text \<open>The first argument of \<open>console.error\<close> on line 28 of Generator.tsx.\<close>

definition parseFailedLabel :: jsstring where
  "parseFailedLabel = [0x89E3, 0x6790, 0x804A, 0x5929, 0x8BB0, 0x5F55, 0x5931, 0x8D25, 0x003A]"

text \<open>A thrown \<open>Error\<close>: its \<open>name\<close> and its \<open>message\<close>.\<close>

datatype error = Error (name: string) (message: jsstring)

text \<open>
  What the component writes to the console, and the errors that no handler of the
  component catches, which the browser reports there.
\<close>

datatype diag =
    console_error_labelled jsstring error
  | console_error error
  | console_log jsstring
  | uncaught error

text \<open>Property values of the settings object.\<close>

datatype jsvalue = JStr jsstring | JNum int

type_synonym jsobject = "string \<rightharpoonup> jsvalue"

section \<open>Data model\<close>

text \<open>
  \<open>ChatMessage\<close> (imported from \<open>@/types\<close>): the speaker tag and the text. The tag is
  the field \<open>role\<close> of the source; it is \<open>mrole\<close> here because \<open>Role\<close> has a field of
  the same name.
\<close>

datatype speaker = system | user | assistant

record ChatMessage =
  mrole :: speaker
  content :: jsstring

record Role =
  role :: jsstring
  avatar :: jsstring
  fc :: jsstring

text \<open>
  The chat history is a plain JavaScript object, as \<open>JSON.parse\<close> builds it or the
  literal \<open>{}\<close>: its own properties are the entries, and its prototype is
  \<open>Object.prototype\<close>. The map holds the own properties, which are what
  \<open>JSON.stringify\<close> writes.
\<close>

type_synonym history = "jsstring \<rightharpoonup> ChatMessage list"

text \<open>
  The members of \<open>Object.prototype\<close>: the accessor \<open>__proto__\<close>, and the methods with the
  number of parameters that their \<open>length\<close> gives.
\<close>

definition proto_key :: jsstring where
  "proto_key = ascii ''__proto__''"

definition objectPrototypeMethods :: "(jsstring \<times> nat) list" where
  "objectPrototypeMethods =
     [(ascii ''constructor'', 1), (ascii ''__defineGetter__'', 2),
      (ascii ''__defineSetter__'', 2), (ascii ''hasOwnProperty'', 1),
      (ascii ''__lookupGetter__'', 1), (ascii ''__lookupSetter__'', 1),
      (ascii ''isPrototypeOf'', 1), (ascii ''propertyIsEnumerable'', 1),
      (ascii ''toString'', 0), (ascii ''valueOf'', 0), (ascii ''toLocaleString'', 0)]"

text \<open>
  What \<open>history[k]\<close> evaluates to: the own property if there is one, else the member of
  \<open>Object.prototype\<close> of that name (for \<open>__proto__\<close> the getter returns
  \<open>Object.prototype\<close> itself), else \<open>undefined\<close>.
\<close>

datatype property =
    Undefined
  | OwnProperty "ChatMessage list"
  | ObjectPrototype
  | Method jsstring nat

definition getProperty :: "history \<Rightarrow> jsstring \<Rightarrow> property" where
  "getProperty h k =
     (case h k of
        Some v \<Rightarrow> OwnProperty v
      | None \<Rightarrow>
          if k = proto_key then ObjectPrototype
          else (case map_of objectPrototypeMethods k of
                  Some n \<Rightarrow> Method k n
                | None \<Rightarrow> Undefined))"

text \<open>
  The assignment \<open>history[k] = v\<close> with an array \<open>v\<close>: an own property is updated; where
  there is none, the name \<open>__proto__\<close> reaches the setter of \<open>Object.prototype\<close>, which
  makes \<open>v\<close> the prototype and creates no property; any other name gets a new own
  property (the inherited methods are writable data properties). The object is
  serialized right after each assignment and not used again, so its new prototype
  plays no part.
\<close>

definition setProperty :: "history \<Rightarrow> jsstring \<Rightarrow> ChatMessage list \<Rightarrow> history" where
  "setProperty h k v = (if k = proto_key \<and> h k = None then h else h(k \<mapsto> v))"

text \<open>
  The setter of a Solid signal, given a function, calls it on the current value and
  stores what it returns. Called so, without a receiver, \<open>constructor\<close> (which is
  \<open>Object\<close>) returns its argument; every other method of \<open>Object.prototype\<close> that takes
  a parameter converts its receiver to an object first and throws a \<open>TypeError\<close>
  (engines word its message differently; it is left empty, as that of \<open>SyntaxError\<close>).
\<close>

definition callMethod :: "jsstring \<Rightarrow> ChatMessage list \<Rightarrow> error + ChatMessage list" where
  "callMethod m prev =
     (if m = ascii ''constructor'' then Inr prev
      else Inl (Error ''TypeError'' []))"

section \<open>The browser store\<close>

text \<open>
  \<open>localStorage\<close> holds one text per key. The component looks at a stored text in two
  ways only: its truthiness, and what \<open>JSON.parse\<close> makes of it; and it writes only
  \<open>JSON.stringify\<close> of a value. A stored text is therefore represented by what these
  built-ins observe of it: the empty string, a non-empty text on which \<open>JSON.parse\<close>
  throws, or a text that \<open>JSON.parse\<close> decodes to a value \<open>v\<close> (as
  \<open>JSON.stringify v\<close> is, for the plain data stored here).
\<close>

datatype 'v stored_text = EmptyText | Unparsable | Json 'v

fun truthy :: "'v stored_text \<Rightarrow> bool" where
  "truthy EmptyText = False"
| "truthy Unparsable = True"
| "truthy (Json v) = True"

definition SyntaxError :: error where
  "SyntaxError = Error ''SyntaxError'' []"

fun JSON_parse :: "'v stored_text \<Rightarrow> error + 'v" where
  "JSON_parse EmptyText = Inl SyntaxError"
| "JSON_parse Unparsable = Inl SyntaxError"
| "JSON_parse (Json v) = Inr v"

definition JSON_stringify :: "'v \<Rightarrow> 'v stored_text" where
  "JSON_stringify v = Json v"

text \<open>
  The two keys the component uses: \<open>CHAT_HISTORY_KEY\<close> and \<open>"setting"\<close>. \<open>None\<close> is
  what \<open>getItem\<close> returns as \<open>null\<close>.
\<close>

record storage =
  chat_history_item :: "history stored_text option"
  setting_item :: "jsobject stored_text option"

text \<open>
  \<open>loadChatHistory\<close> (lines 25-29). The result is paired with what the call wrote to
  the console.
\<close>

definition loadChatHistory :: "storage \<Rightarrow> history \<times> diag list" where
  "loadChatHistory ls =
     (case chat_history_item ls of
        None \<Rightarrow> (Map.empty, [])
      | Some h \<Rightarrow>
          if truthy h then
            (case JSON_parse h of
               Inr v \<Rightarrow> (v, [])
             | Inl e \<Rightarrow> (Map.empty, [console_error_labelled parseFailedLabel e]))
          else (Map.empty, []))"

text \<open>\<open>saveChatHistory\<close> (lines 31-33).\<close>

definition saveChatHistory :: "history \<Rightarrow> storage \<Rightarrow> storage" where
  "saveChatHistory h ls = ls\<lparr>chat_history_item := Some (JSON_stringify h)\<rparr>"

section \<open>Session state\<close>

text \<open>
  The body of one POST to \<open>/api/generate\<close>, with the \<open>AbortController\<close> whose signal
  the fetch was given.
\<close>

record request =
  body_setting :: jsobject
  body_messages :: "ChatMessage list"
  body_time :: nat
  signal :: nat

text \<open>
  The signals of the component, and the part of the environment its handlers touch.
  An \<open>AbortController\<close> is an object shared between the signal \<open>controller\<close> and the
  request that created it, so controllers live in a heap: \<open>abortControllers ! c\<close> is
  \<open>signal.aborted\<close> of the controller at address \<open>c\<close>. \<open>posted\<close> lists the POST
  requests issued so far, \<open>clock\<close> is what \<open>Date.now()\<close> reads, \<open>inputValue\<close> is
  \<open>inputRef.value\<close>. Focus and the height of the text area are not modelled.
\<close>

record state =
  messageList :: "ChatMessage list"
  currentAssistantMessage :: jsstring
  loading :: bool
  controller :: "nat option"
  currentRole :: "Role option"
  roles :: "Role list"
  setting :: jsobject
  inputValue :: jsstring
  abortControllers :: "bool list"
  localStorage :: storage
  console :: "diag list"
  posted :: "request list"
  clock :: nat

text \<open>\<open>structuredClone\<close>: a deep copy. Values of HOL are immutable, so the copy is the value.\<close>

definition structuredClone :: "'a \<Rightarrow> 'a" where
  "structuredClone x = x"

text \<open>\<open>c.abort()\<close> and \<open>c.signal.aborted\<close> for the controller at address \<open>c\<close>.\<close>

definition abort :: "nat \<Rightarrow> state \<Rightarrow> state" where
  "abort c s = s\<lparr>abortControllers := (abortControllers s)[c := True]\<rparr>"

definition aborted :: "state \<Rightarrow> nat \<Rightarrow> bool" where
  "aborted s c \<longleftrightarrow> c < length (abortControllers s) \<and> abortControllers s ! c"

text \<open>
  The entry that the stored history holds under a key: the own property of the object
  that \<open>loadChatHistory\<close> returns.
\<close>

definition persisted :: "state \<Rightarrow> jsstring \<Rightarrow> ChatMessage list option" where
  "persisted s k = fst (loadChatHistory (localStorage s)) k"

text \<open>The keys under which an assignment to the loaded history leaves an entry.\<close>

definition storable :: "state \<Rightarrow> jsstring \<Rightarrow> bool" where
  "storable s k \<longleftrightarrow> k \<noteq> proto_key \<or> persisted s k \<noteq> None"

text \<open>The keys that are not names of members of \<open>Object.prototype\<close>.\<close>

definition plainKey :: "jsstring \<Rightarrow> bool" where
  "plainKey k \<longleftrightarrow> k \<noteq> proto_key \<and> map_of objectPrototypeMethods k = None"

text \<open>\<open>saveCurrentMessages\<close> (lines 86-90).\<close>

definition saveCurrentMessages :: "Role \<Rightarrow> ChatMessage list \<Rightarrow> state \<Rightarrow> state" where
  "saveCurrentMessages roleToSave messagesToSave s =
     (let (history, out) = loadChatHistory (localStorage s);
          history = setProperty history (role roleToSave) (structuredClone messagesToSave)
      in s\<lparr>localStorage := saveChatHistory history (localStorage s),
            console := console s @ out\<rparr>)"

text \<open>\<open>archiveCurrentMessage\<close> (lines 138-151).\<close>

definition archiveCurrentMessage :: "state \<Rightarrow> state" where
  "archiveCurrentMessage s =
     (case currentRole s of
        Some r \<Rightarrow>
          if currentAssistantMessage s \<noteq> [] then
            (let newAssistantMessage = \<lparr>mrole = assistant, content = currentAssistantMessage s\<rparr>;
                 newMessages = messageList s @ [newAssistantMessage];
                 s1 = s\<lparr>messageList := newMessages\<rparr>;
                 s2 = saveCurrentMessages r newMessages s1
             in s2\<lparr>currentAssistantMessage := [], loading := False, controller := None\<rparr>)
          else s
      | None \<Rightarrow> s)"

text \<open>
  \<open>xs.slice(start, fin)\<close>: a negative index counts from the end, and every index is
  clamped to the array. \<open>None\<close> is an omitted second argument.
\<close>

definition sliceIndex :: "nat \<Rightarrow> int \<Rightarrow> nat" where
  "sliceIndex n i = (if i < 0 then nat (max (int n + i) 0) else min (nat i) n)"

definition slice_js :: "'a list \<Rightarrow> int \<Rightarrow> int option \<Rightarrow> 'a list" where
  "slice_js xs start fin =
     (let n = length xs;
          b = sliceIndex n start;
          e = (case fin of None \<Rightarrow> n | Some j \<Rightarrow> sliceIndex n j)
      in take (e - b) (drop b xs))"

text \<open>
  \<open>handleRoleChange\<close> (lines 92-117), block by block. Lines 93-96: the messages of the
  role that was active are saved, if it is another role.
\<close>

definition saveOldRole :: "Role \<Rightarrow> state \<Rightarrow> state" where
  "saveOldRole newRole s =
     (case currentRole s of
        Some oldRole \<Rightarrow>
          if role oldRole \<noteq> role newRole
          then saveCurrentMessages oldRole (messageList s) s else s
      | None \<Rightarrow> s)"

text \<open>Lines 106-110: the welcome message becomes the message list and is stored.\<close>

definition seedWelcome :: "Role \<Rightarrow> state \<Rightarrow> state" where
  "seedWelcome newRole s =
     (let welcomeMessage = \<lparr>mrole = assistant, content = fc newRole\<rparr>;
          s' = s\<lparr>messageList := [welcomeMessage]\<rparr>;
          (newHistory, out) = loadChatHistory (localStorage s');
          newHistory = setProperty newHistory (role newRole) [welcomeMessage]
      in s'\<lparr>localStorage := saveChatHistory newHistory (localStorage s'),
            console := console s' @ out\<rparr>)"

text \<open>
  Lines 100-111. \<open>initialHistory || loadChatHistory()\<close> takes the seed whenever one is
  passed, since an object is truthy. The test \<open>newRoleHistory && newRoleHistory.length > 0\<close>
  holds of a non-empty stored list and of an inherited method with parameters, and
  fails for \<open>undefined\<close>, for an empty list, for a method without parameters and for
  \<open>Object.prototype\<close>, which has no \<open>length\<close>. The result says whether
  \<open>setMessageList\<close> threw.
\<close>

definition adoptHistory :: "Role \<Rightarrow> history option \<Rightarrow> state \<Rightarrow> error option \<times> state" where
  "adoptHistory newRole initialHistory s =
     (let (history, out) = (case initialHistory of
                              Some h \<Rightarrow> (h, [])
                            | None \<Rightarrow> loadChatHistory (localStorage s));
          s' = s\<lparr>console := console s @ out\<rparr>
      in case getProperty history (role newRole) of
           OwnProperty newRoleHistory \<Rightarrow>
             if length newRoleHistory > 0 then (None, s'\<lparr>messageList := newRoleHistory\<rparr>)
             else (None, seedWelcome newRole s')
         | Method m n \<Rightarrow>
             if n > 0 then
               (case callMethod m (messageList s') of
                  Inr v \<Rightarrow> (None, s'\<lparr>messageList := v\<rparr>)
                | Inl e \<Rightarrow> (Some e, s'))
             else (None, seedWelcome newRole s')
         | ObjectPrototype \<Rightarrow> (None, seedWelcome newRole s')
         | Undefined \<Rightarrow> (None, seedWelcome newRole s'))"

text \<open>Lines 113-116.\<close>

definition resetTransient :: "state \<Rightarrow> state" where
  "resetTransient s =
     (let s1 = s\<lparr>currentAssistantMessage := [], loading := False\<rparr>;
          s2 = (case controller s1 of Some c \<Rightarrow> abort c s1 | None \<Rightarrow> s1)
      in s2\<lparr>controller := None\<rparr>)"

text \<open>
  The whole handler. When \<open>setMessageList\<close> throws, lines 113-116 do not run and the
  error leaves the handler uncaught; neither caller does anything after the call.
\<close>

definition handleRoleChange :: "Role \<Rightarrow> history option \<Rightarrow> state \<Rightarrow> state" where
  "handleRoleChange newRole initialHistory s =
     (let s1 = saveOldRole newRole s;
          s2 = s1\<lparr>currentRole := Some newRole\<rparr>;
          (thrown, s3) = adoptHistory newRole initialHistory s2
      in case thrown of
           None \<Rightarrow> resetTransient s3
         | Some e \<Rightarrow> s3\<lparr>console := console s3 @ [uncaught e]\<rparr>)"

text \<open>The \<open>slideChange\<close> handler of the carousel (lines 67-72), the caller of the above.\<close>

definition slideChange :: "nat \<Rightarrow> state \<Rightarrow> state" where
  "slideChange activeIndex s =
     (if activeIndex < length (roles s) then
        (let newRole = roles s ! activeIndex
         in if Some (role newRole) \<noteq> map_option role (currentRole s)
            then handleRoleChange newRole None s else s)
      else s)"

text \<open>\<open>clear\<close> (lines 153-164).\<close>

definition clear :: "state \<Rightarrow> state" where
  "clear s =
     (case currentRole s of
        None \<Rightarrow> s
      | Some r \<Rightarrow>
          (let s1 = s\<lparr>inputValue := []\<rparr>;
               welcomeMessage = \<lparr>mrole = assistant, content = fc r\<rparr>;
               s2 = s1\<lparr>messageList := [welcomeMessage], currentAssistantMessage := []\<rparr>
           in saveCurrentMessages r [welcomeMessage] s2))"

section \<open>The request engine\<close>

text \<open>
  The message list of the request body (lines 173-181). \<open>find\<close> gives \<open>None\<close> where the
  source has \<open>undefined\<close>, which no content is \<open>===\<close> to.
\<close>

definition requestMessageList :: "state \<Rightarrow> Role \<Rightarrow> ChatMessage list" where
  "requestMessageList s cur =
     (let l0 = structuredClone (messageList s);
          initialWelcome = map_option fc (find (\<lambda>r. role r = role cur) (roles s));
          l1 = (case l0 of
                  [] \<Rightarrow> l0
                | m # rest \<Rightarrow>
                    if mrole m = assistant \<and> Some (content m) = initialWelcome
                    then rest else l0);
          l2 = filter (\<lambda>item. \<not> includes_js (content item) errorMarker) l1
      in if length l2 > 15 then slice_js l2 0 (Some 3) @ slice_js l2 (- 12) None else l2)"

text \<open>
  \<open>requestWithLatestMessage\<close> up to its first \<open>await\<close> (lines 167-191): the part that
  runs inside the caller's turn. The new controller is allocated at the end of the heap.
\<close>

definition issueRequest :: "state \<Rightarrow> state" where
  "issueRequest s =
     (case currentRole s of
        None \<Rightarrow> s
      | Some cur \<Rightarrow>
          (let s1 = s\<lparr>loading := True, currentAssistantMessage := []\<rparr>;
               c = length (abortControllers s1);
               s2 = s1\<lparr>abortControllers := abortControllers s1 @ [False],
                       controller := Some c\<rparr>;
               timestamp = clock s2;
               req = \<lparr>body_setting = (setting s2)(''role'' \<mapsto> JStr (role cur)),
                      body_messages = requestMessageList s2 cur,
                      body_time = timestamp,
                      signal = c\<rparr>
           in s2\<lparr>posted := posted s2 @ [req]\<rparr>))"

text \<open>
  What the transport delivers. A \<open>read()\<close> resolves to \<open>{ value, done }\<close> or rejects;
  a present \<open>value\<close> is given as the text \<open>decoder.decode(value)\<close> yields for it. The
  fetch resolves to a response (\<open>ok\<close>, \<open>statusText\<close>, whether \<open>body\<close> is there) followed
  by the reads of its body, or rejects.
\<close>

datatype read = Resolved "jsstring option" bool | Rejected error

datatype response = Response (ok: bool) (statusText: jsstring) (hasBody: bool)

datatype transport = FetchRejects error | FetchResolves response "read list"

text \<open>
  How the \<open>try\<close> block stands: it has run to its end, it has thrown, or it is suspended
  at an \<open>await\<close> because the transport has delivered nothing more yet.
\<close>

datatype completion = Returned | Threw error | Awaiting

text \<open>
  The \<open>while\<close> loop (lines 197-206) over the reads delivered. The \<open>continue\<close> of line
  202 skips the assignment to \<open>done\<close>. The loop keeps no local state besides \<open>done\<close>,
  which is false whenever it awaits, so a suspended loop resumes by calling \<open>readLoop\<close>
  on the reads that arrive later.
\<close>

fun readLoop :: "read list \<Rightarrow> state \<Rightarrow> completion \<times> state" where
  "readLoop [] s = (Awaiting, s)"
| "readLoop (Rejected e # rs) s = (Threw e, s)"
| "readLoop (Resolved val readerDone # rs) s =
     (case val of
        Some char \<Rightarrow>
          if char = newline \<and> endsWith (currentAssistantMessage s) newline
          then readLoop rs s
          else
            (let s' = (if char \<noteq> []
                       then s\<lparr>currentAssistantMessage := currentAssistantMessage s @ char\<rparr>
                       else s)
             in if readerDone then (Returned, s') else readLoop rs s')
      | None \<Rightarrow> if readerDone then (Returned, s) else readLoop rs s)"

text \<open>The \<open>catch\<close> block (lines 207-211).\<close>

definition catchBlock :: "error \<Rightarrow> state \<Rightarrow> state" where
  "catchBlock e s =
     (if name e \<noteq> ''AbortError''
      then s\<lparr>console := console s @ [console_error e],
             currentAssistantMessage := errorPrefix @ message e\<rparr>
      else s)"

text \<open>
  The \<open>finally\<close> block (lines 212-216). \<open>controller()?.signal.aborted\<close> is \<open>undefined\<close>,
  hence falsy, when the signal \<open>controller\<close> holds \<open>null\<close>.
\<close>

definition signalAborted :: "state \<Rightarrow> bool" where
  "signalAborted s = (case controller s of None \<Rightarrow> False | Some c \<Rightarrow> aborted s c)"

definition finallyBlock :: "state \<Rightarrow> state" where
  "finallyBlock s = (if \<not> signalAborted s then archiveCurrentMessage s else s)"

fun settle :: "completion \<times> state \<Rightarrow> state" where
  "settle (Returned, s) = finallyBlock s"
| "settle (Threw e, s) = finallyBlock (catchBlock e s)"
| "settle (Awaiting, s) = s"

text \<open>The rest of the \<open>try\<close> block once the fetch settles (lines 192-206), with its handlers.\<close>

definition afterFetch :: "transport \<Rightarrow> state \<Rightarrow> state" where
  "afterFetch t s =
     (case t of
        FetchRejects e \<Rightarrow> settle (Threw e, s)
      | FetchResolves resp rs \<Rightarrow>
          if \<not> ok resp then settle (Threw (Error ''Error'' (statusText resp)), s)
          else if \<not> hasBody resp then settle (Threw (Error ''Error'' (ascii ''No data'')), s)
          else settle (readLoop rs s))"

text \<open>\<open>requestWithLatestMessage\<close> (lines 166-217) run against one transport, uninterrupted.\<close>

definition requestWithLatestMessage :: "transport \<Rightarrow> state \<Rightarrow> state" where
  "requestWithLatestMessage t s =
     (case currentRole s of None \<Rightarrow> s | Some cur \<Rightarrow> afterFetch t (issueRequest s))"

text \<open>
  \<open>handleButtonClick\<close> (lines 125-136). It does not await the request, so its own turn
  ends when the fetch has been issued.
\<close>

definition handleButtonClick :: "state \<Rightarrow> state" where
  "handleButtonClick s =
     (let inputValue' = trim (inputValue s)
      in case currentRole s of
           None \<Rightarrow> s
         | Some r \<Rightarrow>
             if inputValue' = [] then s
             else
               (let userMessage = \<lparr>mrole = user, content = inputValue'\<rparr>;
                    newMessages = messageList s @ [userMessage];
                    s1 = s\<lparr>messageList := newMessages\<rparr>;
                    s2 = saveCurrentMessages r newMessages s1;
                    s3 = s2\<lparr>inputValue := []\<rparr>
                in issueRequest s3))"

text \<open>\<open>stopStreamFetch\<close> (lines 219-224).\<close>

definition stopStreamFetch :: "state \<Rightarrow> state" where
  "stopStreamFetch s =
     (case controller s of
        Some c \<Rightarrow> archiveCurrentMessage (abort c s)
      | None \<Rightarrow> s)"

text \<open>\<open>retryLastFetch\<close> (lines 226-237); like the send handler it does not await the request.\<close>

definition retryLastFetch :: "state \<Rightarrow> state" where
  "retryLastFetch s =
     (case currentRole s of
        None \<Rightarrow> s
      | Some r \<Rightarrow>
          if length (messageList s) > 0 then
            (let lastMessage = messageList s ! (length (messageList s) - 1)
             in if mrole lastMessage = assistant then
                  (let newMessages = slice_js (messageList s) 0 (Some (- 1));
                       s1 = s\<lparr>messageList := newMessages\<rparr>;
                       s2 = saveCurrentMessages r newMessages s1
                   in issueRequest s2)
                else s)
          else s)"

section \<open>Settings\<close>

text \<open>\<open>defaultSetting\<close> (line 49 of Generator.tsx).\<close>

definition defaultSetting :: jsobject where
  "defaultSetting =
     [''openaiAPIKey'' \<mapsto> JStr [], ''customRule'' \<mapsto> JStr [],
      ''openaiAPITemperature'' \<mapsto> JNum 70]"

text \<open>\<open>ModelProvider\<close> (line 12 of Setting.tsx) and the string each value is.\<close>

datatype ModelProvider = siliconflow | ai302

fun providerName :: "ModelProvider \<Rightarrow> jsstring" where
  "providerName siliconflow = ascii ''siliconflow''"
| "providerName ai302 = ascii ''302ai''"

text \<open>The fields that the interface \<open>Setting\<close> (lines 15-22 of Setting.tsx) requires.\<close>

definition settingFields :: "string list" where
  "settingFields =
     [''modelProvider'', ''siliconflowAPIKey'', ''threeohtwoAPIKey'', ''customRule'',
      ''openaiAPITemperature'']"

text \<open>\<open>handleProviderChange\<close> (lines 31-36 of Setting.tsx).\<close>

definition handleProviderChange :: "ModelProvider \<Rightarrow> state \<Rightarrow> state" where
  "handleProviderChange provider s =
     s\<lparr>setting := (setting s)(''modelProvider'' \<mapsto> JStr (providerName provider))\<rparr>"

text \<open>
  The providers whose radio button is checked (lines 60 and 70 of Setting.tsx): those
  that \<open>modelProvider\<close> is \<open>===\<close> to.
\<close>

definition checkedProviders :: "jsobject \<Rightarrow> ModelProvider list" where
  "checkedProviders st =
     filter (\<lambda>p. st ''modelProvider'' = Some (JStr (providerName p))) [siliconflow, ai302]"

text \<open>
  The settings part of \<open>onMount\<close> (lines 53-55 of Generator.tsx); the spread
  \<open>{ ...a, ...b }\<close> is \<open>a ++ b\<close>.
\<close>

definition loadSetting :: "state \<Rightarrow> state" where
  "loadSetting s =
     (case setting_item (localStorage s) of
        None \<Rightarrow> s
      | Some st \<Rightarrow>
          if truthy st then
            (case JSON_parse st of
               Inr v \<Rightarrow> s\<lparr>setting := defaultSetting ++ v\<rparr>
             | Inl e \<Rightarrow> s\<lparr>console := console s @ [console_log (ascii ''Setting parse error'')]\<rparr>)
          else s)"

text \<open>The effect of line 84: the settings are written back whenever they change.\<close>

definition saveSetting :: "state \<Rightarrow> state" where
  "saveSetting s =
     s\<lparr>localStorage := (localStorage s)\<lparr>setting_item := Some (JSON_stringify (setting s))\<rparr>\<rparr>"

section \<open>The component as a whole\<close>

text \<open>The signals as they are created (lines 40-50), over a given store and clock.\<close>

definition initialState :: "storage \<Rightarrow> nat \<Rightarrow> state" where
  "initialState ls t =
     \<lparr>messageList = [], currentAssistantMessage = [], loading = False, controller = None,
      currentRole = None, roles = [], setting = defaultSetting, inputValue = [],
      abortControllers = [], localStorage = ls, console = [], posted = [], clock = t\<rparr>"

text \<open>
  \<open>onMount\<close> (lines 52-82), given the roles that the GET request returned. While it
  awaits them, the effect of line 84 runs for the first time.
\<close>

definition onMount :: "Role list \<Rightarrow> state \<Rightarrow> state" where
  "onMount fetchedRoles s =
     (let s1 = saveSetting (loadSetting s);
          s2 = s1\<lparr>roles := fetchedRoles\<rparr>
      in case fetchedRoles of
           [] \<Rightarrow> s2
         | initialRole # _ \<Rightarrow>
             (let (history, out) = loadChatHistory (localStorage s2);
                  s3 = s2\<lparr>console := console s2 @ out\<rparr>
              in handleRoleChange initialRole (Some history) s3))"

text \<open>
  Everything that can happen to a mounted component: the user's actions, and the
  transport settling a pending fetch or delivering reads to a suspended loop.
\<close>

datatype action =
    SwitchRole Role
  | SlideChange nat
  | Type jsstring
  | Send
  | Clear
  | Stop
  | Retry
  | ChooseProvider ModelProvider
  | FetchSettles transport
  | ReadsArrive "read list"

fun perform :: "action \<Rightarrow> state \<Rightarrow> state" where
  "perform (SwitchRole r) s = handleRoleChange r None s"
| "perform (SlideChange i) s = slideChange i s"
| "perform (Type txt) s = s\<lparr>inputValue := txt\<rparr>"
| "perform Send s = handleButtonClick s"
| "perform Clear s = clear s"
| "perform Stop s = stopStreamFetch s"
| "perform Retry s = retryLastFetch s"
| "perform (ChooseProvider p) s = saveSetting (handleProviderChange p s)"
| "perform (FetchSettles t) s = afterFetch t s"
| "perform (ReadsArrive rs) s = settle (readLoop rs s)"

fun run :: "action list \<Rightarrow> state \<Rightarrow> state" where
  "run [] s = s"
| "run (a # as) s = run as (perform a s)"

text \<open>
  The buffer after one more chunk, as the specification words it: the chunk is
  appended, except that a chunk that is exactly a newline is dropped when the buffer
  already ends in a newline.
\<close>

definition appendChunk :: "jsstring \<Rightarrow> jsstring \<Rightarrow> jsstring" where
  "appendChunk buf chunk = (if chunk = newline \<and> suffix newline buf then buf else buf @ chunk)"

text \<open>A read that delivers the chunk decoding to the given text, the stream not yet done.\<close>

definition chunk :: "jsstring \<Rightarrow> read" where
  "chunk txt = Resolved (Some txt) False"

text \<open>
  Role \<open>k\<close> is not the active role before any of the actions, nor after the last one.
\<close>

fun awayFrom :: "jsstring \<Rightarrow> action list \<Rightarrow> state \<Rightarrow> bool" where
  "awayFrom k [] s = (map_option role (currentRole s) \<noteq> Some k)"
| "awayFrom k (a # as) s =
     (map_option role (currentRole s) \<noteq> Some k \<and> awayFrom k as (perform a s))"

section \<open>The request construction as the specification words it\<close>

text \<open>
  Step 1: drop the leading message if it is exactly the role's welcome message.
  Step 2: remove every message whose content contains the error marker.
  Step 3: if more than 15 remain, keep the first 3 and the last 12.
\<close>

definition dropWelcome :: "Role \<Rightarrow> ChatMessage list \<Rightarrow> ChatMessage list" where
  "dropWelcome cur ms =
     (case ms of
        [] \<Rightarrow> []
      | m # rest \<Rightarrow> if m = \<lparr>mrole = assistant, content = fc cur\<rparr> then rest else ms)"

definition removeErrorTurns :: "ChatMessage list \<Rightarrow> ChatMessage list" where
  "removeErrorTurns ms = filter (\<lambda>m. \<not> sublist errorMarker (content m)) ms"

definition capMessages :: "ChatMessage list \<Rightarrow> ChatMessage list" where
  "capMessages ms = (if length ms > 15 then take 3 ms @ drop (length ms - 12) ms else ms)"

definition spec_requestMessages :: "Role \<Rightarrow> ChatMessage list \<Rightarrow> ChatMessage list" where
  "spec_requestMessages cur ms = capMessages (removeErrorTurns (dropWelcome cur ms))"

section \<open>Sample data\<close>

text \<open>Two roles, an empty store, and the component mounted on them.\<close>

definition buddha :: Role where
  "buddha = \<lparr>role = ascii ''buddha'', avatar = ascii ''/buddha.png'', fc = ascii ''Welcome''\<rparr>"

definition guanyin :: Role where
  "guanyin = \<lparr>role = ascii ''guanyin'', avatar = ascii ''/guanyin.png'', fc = ascii ''Peace''\<rparr>"

definition emptyStorage :: storage where
  "emptyStorage = \<lparr>chat_history_item = None, setting_item = None\<rparr>"

definition mounted :: state where
  "mounted = onMount [buddha, guanyin] (initialState emptyStorage 0)"

text \<open>The user has sent \<open>hi\<close>; then one chunk of the answer has arrived.\<close>

definition asked :: state where
  "asked = handleButtonClick (mounted\<lparr>inputValue := ascii ''hi''\<rparr>)"

definition streaming :: state where
  "streaming = settle (readLoop [Resolved (Some (ascii ''partial answer'')) False] asked)"

text \<open>The user has moved the carousel to the second role in the middle of the stream.\<close>

definition switched :: state where
  "switched = handleRoleChange guanyin None streaming"

text \<open>The stream has ended and the answer has been archived.\<close>

definition answered :: state where
  "answered = settle (readLoop [Resolved None True] streaming)"

text \<open>
  Settings as a version of the component before the provider selection saved them,
  and a store that holds nothing else.
\<close>

definition oldSavedSetting :: jsobject where
  "oldSavedSetting =
     [''openaiAPIKey'' \<mapsto> JStr (ascii ''sk-old''), ''customRule'' \<mapsto> JStr [],
      ''openaiAPITemperature'' \<mapsto> JNum 70]"

definition oldStorage :: storage where
  "oldStorage = \<lparr>chat_history_item = None, setting_item = Some (Json oldSavedSetting)\<rparr>"

text \<open>Stores whose history item is the empty string, and a text that does not parse.\<close>

definition blankStorage :: storage where
  "blankStorage = \<lparr>chat_history_item = Some EmptyText, setting_item = None\<rparr>"

definition garbledStorage :: storage where
  "garbledStorage = \<lparr>chat_history_item = Some Unparsable, setting_item = None\<rparr>"

text \<open>
  Roles whose identifiers are names of members of \<open>Object.prototype\<close>, and the
  component mounted on the first of them, then asked and answered as above.
\<close>

definition protoRole :: Role where
  "protoRole = \<lparr>role = ascii ''__proto__'', avatar = ascii ''/proto.png'', fc = ascii ''Hello''\<rparr>"

definition ctorRole :: Role where
  "ctorRole = \<lparr>role = ascii ''constructor'', avatar = ascii ''/ctor.png'', fc = ascii ''Hi''\<rparr>"

definition protoMounted :: state where
  "protoMounted = onMount [protoRole, buddha, ctorRole] (initialState emptyStorage 0)"

definition protoAsked :: state where
  "protoAsked = handleButtonClick (protoMounted\<lparr>inputValue := ascii ''hi''\<rparr>)"

definition protoStreaming :: state where
  "protoStreaming = settle (readLoop [chunk (ascii ''partial answer'')] protoAsked)"

definition protoAnswered :: state where
  "protoAnswered = settle (readLoop [Resolved None True] protoStreaming)"

definition maitreya :: Role where
  "maitreya = \<lparr>role = ascii ''maitreya'', avatar = ascii ''/maitreya.png'', fc = ascii ''Joy''\<rparr>"

text \<open>What the user and the transport do while the first role is away.\<close>

definition elsewhere :: "action list" where
  "elsewhere =
     [Type (ascii ''hello''), Send,
      ReadsArrive [Resolved (Some (ascii ''Om'')) False, Resolved None True],
      Retry, ReadsArrive [Resolved (Some (ascii ''Ah'')) False], Stop,
      SwitchRole maitreya, Clear, SlideChange 1]"

text \<open>A long conversation with the first role, one of whose turns carries the error marker.\<close>

definition numbered :: "nat \<Rightarrow> ChatMessage" where
  "numbered i = \<lparr>mrole = (if even i then user else assistant), content = [of_nat (65 + i)]\<rparr>"

definition longTalk :: state where
  "longTalk =
     mounted\<lparr>messageList :=
       messageList mounted @ map numbered [0..<9]
       @ [\<lparr>mrole = assistant, content = errorPrefix @ errorMarker\<rparr>]
       @ map numbered [9..<18]\<rparr>"

section \<open>Facts about the store\<close>

lemma loadChatHistory_saveChatHistory:
  "loadChatHistory (saveChatHistory h ls) = (h, [])"
  by (simp add: loadChatHistory_def saveChatHistory_def JSON_stringify_def)

lemma load_fst: "fst (loadChatHistory (localStorage s)) = persisted s"
  by (simp add: persisted_def fun_eq_iff)

lemma persisted_upd:
  "persisted (s\<lparr>currentRole := a\<rparr>) = persisted s"
  "persisted (s\<lparr>console := b\<rparr>) = persisted s"
  "persisted (s\<lparr>messageList := c\<rparr>) = persisted s"
  "persisted (s\<lparr>currentAssistantMessage := d\<rparr>) = persisted s"
  "persisted (s\<lparr>loading := e\<rparr>) = persisted s"
  "persisted (s\<lparr>controller := f\<rparr>) = persisted s"
  "persisted (s\<lparr>inputValue := g\<rparr>) = persisted s"
  "persisted (s\<lparr>setting := h\<rparr>) = persisted s"
  by (simp_all add: persisted_def fun_eq_iff)

lemma persisted_store:
  "persisted (s\<lparr>localStorage := saveChatHistory h ls\<rparr>) = h"
  by (simp add: persisted_def fun_eq_iff loadChatHistory_saveChatHistory)

lemma setProperty_apply:
  "setProperty h k v k' = (if k' = k \<and> (k \<noteq> proto_key \<or> h k \<noteq> None) then Some v else h k')"
  by (auto simp: setProperty_def)

lemma storable_upd:
  "storable (s\<lparr>currentRole := a\<rparr>) = storable s"
  "storable (s\<lparr>console := b\<rparr>) = storable s"
  "storable (s\<lparr>messageList := c\<rparr>) = storable s"
  "storable (s\<lparr>currentAssistantMessage := d\<rparr>) = storable s"
  "storable (s\<lparr>loading := e\<rparr>) = storable s"
  "storable (s\<lparr>controller := f\<rparr>) = storable s"
  "storable (s\<lparr>inputValue := g\<rparr>) = storable s"
  by (simp_all add: storable_def persisted_upd fun_eq_iff)

lemma persisted_saveCurrentMessages:
  "persisted (saveCurrentMessages r ms s) k =
     (if k = role r \<and> storable s (role r) then Some ms else persisted s k)"
  by (auto simp: persisted_def storable_def saveCurrentMessages_def
      loadChatHistory_saveChatHistory structuredClone_def setProperty_apply split: prod.splits)

lemma saveCurrentMessages_fields:
  "messageList (saveCurrentMessages r ms s) = messageList s"
  "currentRole (saveCurrentMessages r ms s) = currentRole s"
  "currentAssistantMessage (saveCurrentMessages r ms s) = currentAssistantMessage s"
  "controller (saveCurrentMessages r ms s) = controller s"
  "abortControllers (saveCurrentMessages r ms s) = abortControllers s"
  "roles (saveCurrentMessages r ms s) = roles s"
  "posted (saveCurrentMessages r ms s) = posted s"
  by (simp_all add: saveCurrentMessages_def split_beta)

lemma abort_fields:
  "messageList (abort c s) = messageList s"
  "currentAssistantMessage (abort c s) = currentAssistantMessage s"
  "currentRole (abort c s) = currentRole s"
  "persisted (abort c s) = persisted s"
  "controller (abort c s) = controller s"
  "storable (abort c s) = storable s"
  by (simp_all add: abort_def persisted_def storable_def fun_eq_iff)

section \<open>Archiving\<close>

lemma archive_fields:
  assumes "currentRole s = Some r" and "currentAssistantMessage s \<noteq> []"
  shows "messageList (archiveCurrentMessage s) =
           messageList s @ [\<lparr>mrole = assistant, content = currentAssistantMessage s\<rparr>]"
    and "persisted (archiveCurrentMessage s) (role r) =
           (if storable s (role r)
            then Some (messageList s @ [\<lparr>mrole = assistant, content = currentAssistantMessage s\<rparr>])
            else None)"
    and "currentAssistantMessage (archiveCurrentMessage s) = []"
    and "loading (archiveCurrentMessage s) = False"
    and "controller (archiveCurrentMessage s) = None"
    and "currentRole (archiveCurrentMessage s) = Some r"
  using assms
  by (auto simp: archiveCurrentMessage_def Let_def persisted_upd storable_upd storable_def
      persisted_saveCurrentMessages saveCurrentMessages_fields)

lemma archive_empty: "currentAssistantMessage s = [] \<Longrightarrow> archiveCurrentMessage s = s"
  by (simp add: archiveCurrentMessage_def split: option.splits)

text \<open>
  C10. In a state whose partial assistant buffer is empty, or in which no role is
  active, \<open>archiveCurrentMessage\<close> returns the state it was given: message list, store,
  loading flag and cancellation handle are all unchanged. And whatever the state, the
  message list after archiving is the old one, or the old one followed by one assistant
  message whose content is the (non-empty) buffer; an empty message is never appended.
\<close>

theorem archive_frame:
  "(currentAssistantMessage s = [] \<or> currentRole s = None \<longrightarrow> archiveCurrentMessage s = s)
   \<and> (messageList (archiveCurrentMessage s) = messageList s
      \<or> (currentAssistantMessage s \<noteq> []
         \<and> messageList (archiveCurrentMessage s) =
             messageList s @ [\<lparr>mrole = assistant, content = currentAssistantMessage s\<rparr>]))"
  by (auto simp: archiveCurrentMessage_def saveCurrentMessages_def Let_def
      split: option.splits prod.splits)

theorem archive_frame_witness:
  "(currentAssistantMessage mounted = [] \<or> currentRole mounted = None)
   \<and> archiveCurrentMessage mounted = mounted"
proof -
  have "currentAssistantMessage mounted = []"
    by code_simp
  with archive_frame [of mounted] show ?thesis by simp
qed

section \<open>Stopping a stream\<close>

text \<open>
  Stop is invoked while a request is in flight (\<open>controller\<close> holds its controller)
  and the partial buffer holds a non-empty text \<open>b\<close>. Then exactly one assistant message
  with content \<open>b\<close> is appended to the message list, the loading flag is false, and
  the extended list is the stored entry of the role wherever the assignment to the
  history leaves an entry. When the aborted request then runs its own \<open>catch\<close> and
  \<open>finally\<close> (the read rejects with an \<open>AbortError\<close>, or the loop had just returned),
  the state does not change any more: the buffer is not archived twice. The other way
  round, once the request has archived on its own completion, stop changes nothing.
\<close>

lemma stop_archives_once:
  assumes "controller s = Some c" and "currentRole s = Some r"
    and "currentAssistantMessage s = b" and "b \<noteq> []"
    and "name e = ''AbortError''"
  shows "messageList (stopStreamFetch s) = messageList s @ [\<lparr>mrole = assistant, content = b\<rparr>]
     \<and> (storable s (role r) \<longrightarrow>
          persisted (stopStreamFetch s) (role r)
            = Some (messageList s @ [\<lparr>mrole = assistant, content = b\<rparr>]))
     \<and> loading (stopStreamFetch s) = False
     \<and> settle (Threw e, stopStreamFetch s) = stopStreamFetch s
     \<and> settle (Returned, stopStreamFetch s) = stopStreamFetch s
     \<and> (\<not> aborted s c \<longrightarrow> stopStreamFetch (settle (Returned, s)) = settle (Returned, s))"
proof -
  let ?a = "abort c s"
  have st: "stopStreamFetch s = archiveCurrentMessage ?a"
    using assms(1) by (simp add: stopStreamFetch_def)
  have r: "currentRole ?a = Some r" and b: "currentAssistantMessage ?a \<noteq> []"
    using assms by (simp_all add: abort_fields)
  note f = archive_fields [OF r b]
  have fin: "finallyBlock (stopStreamFetch s) = stopStreamFetch s"
    using f by (simp add: st finallyBlock_def archive_empty)
  have cat: "catchBlock e (stopStreamFetch s) = stopStreamFetch s"
    using assms(5) by (simp add: catchBlock_def)
  have "stopStreamFetch (settle (Returned, s)) = settle (Returned, s)" if "\<not> aborted s c"
  proof -
    have "settle (Returned, s) = archiveCurrentMessage s"
      using that assms(1) by (simp add: finallyBlock_def signalAborted_def)
    moreover have "controller (archiveCurrentMessage s) = None"
      using archive_fields(5) [of s r] assms by simp
    ultimately show ?thesis by (simp add: stopStreamFetch_def)
  qed
  with fin cat f assms show ?thesis
    by (simp add: st abort_fields)
qed

lemma stop_archives_once_example:
  "controller streaming = Some 0 \<and> currentRole streaming = Some buddha
   \<and> currentAssistantMessage streaming = ascii ''partial answer''
   \<and> messageList (stopStreamFetch streaming)
       = messageList streaming @ [\<lparr>mrole = assistant, content = ascii ''partial answer''\<rparr>]
   \<and> persisted (stopStreamFetch streaming) (role buddha)
       = Some (messageList streaming @ [\<lparr>mrole = assistant, content = ascii ''partial answer''\<rparr>])
   \<and> loading (stopStreamFetch streaming) = False
   \<and> settle (Threw (Error ''AbortError'' []), stopStreamFetch streaming) = stopStreamFetch streaming
   \<and> \<not> aborted streaming 0
   \<and> stopStreamFetch (settle (Returned, streaming)) = settle (Returned, streaming)"
proof -
  have h: "controller streaming = Some 0" "currentRole streaming = Some buddha"
    "currentAssistantMessage streaming = ascii ''partial answer''"
    by code_simp+
  have n: "ascii ''partial answer'' \<noteq> []" "name (Error ''AbortError'' []) = ''AbortError''"
    by (simp_all add: ascii_def)
  have a: "\<not> aborted streaming 0" "storable streaming (role buddha)"
    by code_simp+
  from stop_archives_once [OF h n] h a show ?thesis by simp
qed

text \<open>
  C1 at the role whose identifier is \<open>__proto__\<close>: stop is invoked in the middle of the
  stream with the buffer \<open>partial answer\<close>. The message is appended to the message list
  and the loading flag is false, but nothing is persisted: the store holds no entry for
  the role, because the assignment of line 88 reaches the setter of
  \<open>Object.prototype\<close> and creates no property.
\<close>

theorem stop_proto_not_persisted:
  "controller protoStreaming = Some 0
   \<and> currentRole protoStreaming = Some protoRole
   \<and> currentAssistantMessage protoStreaming = ascii ''partial answer''
   \<and> messageList (stopStreamFetch protoStreaming)
       = messageList protoStreaming @ [\<lparr>mrole = assistant, content = ascii ''partial answer''\<rparr>]
   \<and> loading (stopStreamFetch protoStreaming) = False
   \<and> persisted (stopStreamFetch protoStreaming) (role protoRole) = None"
  by code_simp

section \<open>Constructing the request\<close>

lemma includes_js_sublist: "includes_js s t \<longleftrightarrow> sublist t s"
  by (induction s) (simp_all add: sublist_Cons_right)

lemma slice_first3: "slice_js xs 0 (Some 3) = take 3 xs"
  by (simp add: slice_js_def sliceIndex_def Let_def min_def)

lemma slice_last12: "slice_js xs (- 12) None = drop (length xs - 12) xs"
  by (auto simp: slice_js_def sliceIndex_def Let_def max_def nat_diff_distrib')

lemma slice_butlast: "slice_js xs 0 (Some (- 1)) = butlast xs"
  by (auto simp: slice_js_def sliceIndex_def Let_def max_def nat_diff_distrib' butlast_conv_take)

lemma find_registry:
  "cur \<in> set rs \<Longrightarrow> distinct (map role rs) \<Longrightarrow> find (\<lambda>r. role r = role cur) rs = Some cur"
  by (induction rs) auto

lemma requestMessageList_spec:
  assumes "cur \<in> set (roles s)" and "distinct (map role (roles s))"
  shows "requestMessageList s cur = spec_requestMessages cur (messageList s)"
proof -
  have w: "map_option fc (find (\<lambda>r. role r = role cur) (roles s)) = Some (fc cur)"
    using find_registry [OF assms] by simp
  show ?thesis
    unfolding requestMessageList_def spec_requestMessages_def w
    by (simp add: Let_def structuredClone_def dropWelcome_def removeErrorTurns_def capMessages_def
        includes_js_sublist slice_first3 slice_last12 split: list.splits)
qed

lemma capMessages_length: "15 < length ms \<Longrightarrow> length (capMessages ms) = 15"
  by (simp add: capMessages_def)

lemma subseq_capMessages: "subseq (capMessages ms) ms"
proof (cases "15 < length ms")
  case True
  then have "min 3 (length ms - 12) = 3"
    by arith
  then have "take 3 (take (length ms - 12) ms) = take 3 ms"
    by simp
  then have "prefix (take 3 ms) (take (length ms - 12) ms)"
    by (metis take_is_prefix)
  then have "subseq (take 3 ms @ drop (length ms - 12) ms)
                    (take (length ms - 12) ms @ drop (length ms - 12) ms)"
    by (intro list_emb_append_mono prefix_imp_subseq) simp_all
  then show ?thesis using True by (simp add: capMessages_def)
next
  case False
  then show ?thesis by (simp add: capMessages_def)
qed

lemma subseq_dropWelcome: "subseq (dropWelcome cur ms) ms"
  by (cases ms) (auto simp: dropWelcome_def)

lemma subseq_spec: "subseq (spec_requestMessages cur ms) ms"
proof -
  have "subseq (removeErrorTurns (dropWelcome cur ms)) (dropWelcome cur ms)"
    by (simp add: removeErrorTurns_def)
  then have "subseq (removeErrorTurns (dropWelcome cur ms)) ms"
    using subseq_dropWelcome subseq_order.trans by blast
  then show ?thesis
    unfolding spec_requestMessages_def
    using subseq_capMessages subseq_order.trans by blast
qed

lemma requestMessageList_cong:
  "messageList s' = messageList s \<Longrightarrow> roles s' = roles s \<Longrightarrow>
   requestMessageList s' cur = requestMessageList s cur"
  by (simp add: requestMessageList_def)

lemma issueRequest_fields:
  "messageList (issueRequest s) = messageList s"
  "currentRole (issueRequest s) = currentRole s"
  "roles (issueRequest s) = roles s"
  "localStorage (issueRequest s) = localStorage s"
  "persisted (issueRequest s) = persisted s"
  by (simp_all add: issueRequest_def Let_def persisted_def fun_eq_iff split: option.splits)

lemma issueRequest_posted:
  assumes "currentRole s = Some cur"
  shows "posted (issueRequest s) =
     posted s @ [\<lparr>body_setting = (setting s)(''role'' \<mapsto> JStr (role cur)),
       body_messages = requestMessageList s cur, body_time = clock s,
       signal = length (abortControllers s)\<rparr>]"
proof -
  let ?s2 = "s\<lparr>loading := True, currentAssistantMessage := [],
               abortControllers := abortControllers s @ [False],
               controller := Some (length (abortControllers s))\<rparr>"
  have "requestMessageList ?s2 cur = requestMessageList s cur"
    by (rule requestMessageList_cong) simp_all
  then show ?thesis
    using assms by (simp add: issueRequest_def Let_def)
qed

lemma issueRequest_started:
  assumes "currentRole s = Some cur"
  shows "loading (issueRequest s)" and "currentAssistantMessage (issueRequest s) = []"
    and "controller (issueRequest s) = Some (length (abortControllers s))"
    and "\<not> aborted (issueRequest s) (length (abortControllers s))"
  using assms by (simp_all add: issueRequest_def Let_def aborted_def)

text \<open>
  C2. Let the current role be an entry of the role registry, whose identifiers are
  unique. Issuing a request posts exactly one request, and its message list is the
  current message list put through the three steps of the specification in order: the
  leading welcome message dropped, every message containing the error marker removed,
  and, if more than 15 remain, the first 3 and the last 12 kept. The messages that
  survive appear in the order they had in the message list, and whenever more than 15
  remain after filtering the request carries exactly 15.
\<close>

theorem request_messages_refine:
  assumes "currentRole s = Some cur" and "cur \<in> set (roles s)"
    and "distinct (map role (roles s))"
  shows "length (posted (issueRequest s)) = Suc (length (posted s))
     \<and> body_messages (last (posted (issueRequest s))) = spec_requestMessages cur (messageList s)
     \<and> subseq (body_messages (last (posted (issueRequest s)))) (messageList s)
     \<and> (15 < length (removeErrorTurns (dropWelcome cur (messageList s))) \<longrightarrow>
          length (body_messages (last (posted (issueRequest s)))) = 15)"
proof -
  have b: "body_messages (last (posted (issueRequest s))) = spec_requestMessages cur (messageList s)"
    by (simp add: issueRequest_posted [OF assms(1)] requestMessageList_spec [OF assms(2,3)])
  have l: "length (posted (issueRequest s)) = Suc (length (posted s))"
    by (simp add: issueRequest_posted [OF assms(1)])
  have c: "length (spec_requestMessages cur (messageList s)) = 15"
    if "15 < length (removeErrorTurns (dropWelcome cur (messageList s)))"
    using that by (simp add: spec_requestMessages_def capMessages_length)
  show ?thesis
    using l c by (simp add: b subseq_spec)
qed

theorem request_messages_refine_witness:
  "currentRole longTalk = Some buddha \<and> buddha \<in> set (roles longTalk)
   \<and> distinct (map role (roles longTalk))
   \<and> 15 < length (removeErrorTurns (dropWelcome buddha (messageList longTalk)))
   \<and> body_messages (last (posted (issueRequest longTalk)))
       = map numbered [0..<3] @ map numbered [6..<18]
   \<and> length (body_messages (last (posted (issueRequest longTalk)))) = 15"
proof -
  have h: "currentRole longTalk = Some buddha" "buddha \<in> set (roles longTalk)"
    "distinct (map role (roles longTalk))"
    by code_simp+
  have n: "15 < length (removeErrorTurns (dropWelcome buddha (messageList longTalk)))"
    by code_simp
  have v: "spec_requestMessages buddha (messageList longTalk)
             = map numbered [0..<3] @ map numbered [6..<18]"
    by code_simp
  from request_messages_refine [OF h] h n v show ?thesis by simp
qed

section \<open>Switching roles\<close>

lemma resetTransient_fields:
  "messageList (resetTransient s) = messageList s"
  "persisted (resetTransient s) = persisted s"
  "currentRole (resetTransient s) = currentRole s"
  "currentAssistantMessage (resetTransient s) = []"
  "loading (resetTransient s) = False"
  "controller (resetTransient s) = None"
  by (simp_all add: resetTransient_def Let_def abort_def persisted_def fun_eq_iff
      split: option.splits)

lemma seedWelcome_fields:
  "messageList (seedWelcome r s) = [\<lparr>mrole = assistant, content = fc r\<rparr>]"
  "persisted (seedWelcome r s) k =
     (if k = role r \<and> storable s (role r)
      then Some [\<lparr>mrole = assistant, content = fc r\<rparr>] else persisted s k)"
  "currentRole (seedWelcome r s) = currentRole s"
  by (auto simp: seedWelcome_def Let_def split_beta persisted_store load_fst persisted_upd
      setProperty_apply storable_def)

lemma adoptHistory_frame:
  "currentRole (snd (adoptHistory r h s)) = currentRole s"
  "k \<noteq> role r \<Longrightarrow> persisted (snd (adoptHistory r h s)) k = persisted s k"
  by (auto simp: adoptHistory_def Let_def split_beta seedWelcome_fields persisted_upd
      split: property.splits sum.splits)

lemma getProperty_plain:
  "plainKey k \<Longrightarrow>
   getProperty h k = (case h k of Some v \<Rightarrow> OwnProperty v | None \<Rightarrow> Undefined)"
  by (simp add: getProperty_def plainKey_def split: option.splits)

lemma storable_plain: "plainKey k \<Longrightarrow> storable s k"
  by (simp add: storable_def plainKey_def)

lemma adoptHistory_plain:
  assumes "plainKey (role r)"
    and "found = (case h of Some h' \<Rightarrow> h' (role r) | None \<Rightarrow> persisted s (role r))"
  shows "fst (adoptHistory r h s) = None"
    and "messageList (snd (adoptHistory r h s)) =
           (if found = None \<or> found = Some []
            then [\<lparr>mrole = assistant, content = fc r\<rparr>] else the found)"
    and "persisted (snd (adoptHistory r h s)) (role r) =
           (if found = None \<or> found = Some []
            then Some [\<lparr>mrole = assistant, content = fc r\<rparr>] else persisted s (role r))"
  using assms
  by (auto simp: adoptHistory_def Let_def split_beta seedWelcome_fields persisted_upd load_fst
      getProperty_plain storable_plain storable_upd split: option.splits)

lemma saveOldRole_fields:
  "messageList (saveOldRole r s) = messageList s"
  "persisted (saveOldRole r s) k =
     (case currentRole s of
        Some old \<Rightarrow>
          if role old \<noteq> role r \<and> k = role old \<and> storable s k
          then Some (messageList s) else persisted s k
      | None \<Rightarrow> persisted s k)"
  by (auto simp: saveOldRole_def persisted_saveCurrentMessages saveCurrentMessages_fields
      split: option.splits)

lemma handleRoleChange_unfold:
  "handleRoleChange new h s =
     (let a = adoptHistory new h ((saveOldRole new s)\<lparr>currentRole := Some new\<rparr>)
      in case fst a of
           None \<Rightarrow> resetTransient (snd a)
         | Some e \<Rightarrow> (snd a)\<lparr>console := console (snd a) @ [uncaught e]\<rparr>)"
  by (simp add: handleRoleChange_def Let_def split_beta)

lemma handleRoleChange_new:
  assumes "plainKey (role new)"
    and "found = (case h of Some h' \<Rightarrow> h' (role new) | None \<Rightarrow> persisted s (role new))"
  shows "messageList (handleRoleChange new h s) =
           (if found = None \<or> found = Some []
            then [\<lparr>mrole = assistant, content = fc new\<rparr>] else the found)"
    and "persisted (handleRoleChange new h s) (role new) =
           (if found = None \<or> found = Some []
            then Some [\<lparr>mrole = assistant, content = fc new\<rparr>] else persisted s (role new))"
    and "currentAssistantMessage (handleRoleChange new h s) = []"
    and "loading (handleRoleChange new h s) = False"
    and "controller (handleRoleChange new h s) = None"
proof -
  let ?s2 = "(saveOldRole new s)\<lparr>currentRole := Some new\<rparr>"
  have p: "persisted ?s2 (role new) = persisted s (role new)"
    by (auto simp: persisted_upd saveOldRole_fields split: option.splits)
  have f: "found = (case h of Some h' \<Rightarrow> h' (role new) | None \<Rightarrow> persisted ?s2 (role new))"
    using assms(2) p by (simp split: option.splits)
  note a = adoptHistory_plain [OF assms(1) f]
  show "messageList (handleRoleChange new h s) =
           (if found = None \<or> found = Some []
            then [\<lparr>mrole = assistant, content = fc new\<rparr>] else the found)"
    by (simp add: handleRoleChange_unfold Let_def resetTransient_fields a(1,2))
  show "persisted (handleRoleChange new h s) (role new) =
           (if found = None \<or> found = Some []
            then Some [\<lparr>mrole = assistant, content = fc new\<rparr>] else persisted s (role new))"
    by (simp add: handleRoleChange_unfold Let_def resetTransient_fields a(1,3) p)
  show "currentAssistantMessage (handleRoleChange new h s) = []"
    "loading (handleRoleChange new h s) = False"
    "controller (handleRoleChange new h s) = None"
    by (simp_all add: handleRoleChange_unfold Let_def resetTransient_fields a(1))
qed

lemma handleRoleChange_other:
  "k \<noteq> role new \<Longrightarrow>
   persisted (handleRoleChange new h s) k =
     (case currentRole s of
        Some old \<Rightarrow>
          if role old \<noteq> role new \<and> k = role old \<and> storable s k
          then Some (messageList s) else persisted s k
      | None \<Rightarrow> persisted s k)"
  by (auto simp: handleRoleChange_unfold Let_def resetTransient_fields adoptHistory_frame
      persisted_upd saveOldRole_fields split: option.splits)

lemma handleRoleChange_fields:
  "currentRole (handleRoleChange r h s) = Some r"
  by (simp add: handleRoleChange_unfold Let_def resetTransient_fields adoptHistory_frame
      split: option.splits)

text \<open>
  \<open>handleRoleChange\<close> is called without a seed, or, as \<open>onMount\<close> does, with the history
  it has just loaded from the store, for a role \<open>R\<close> whose identifier is not the name of
  a member of \<open>Object.prototype\<close>. If the stored history of \<open>R\<close> is absent or empty, the
  message list becomes the single assistant message carrying \<open>R\<close>'s welcome text, and
  that one-message list is what the store then holds under \<open>R\<close>'s identifier. If the
  stored history \<open>ms\<close> of \<open>R\<close> is not empty, the message list becomes \<open>ms\<close>.
\<close>

lemma switch_role_history:
  assumes "seed = None \<or> seed = Some (fst (loadChatHistory (localStorage s)))"
    and "plainKey (role R)"
  shows "(persisted s (role R) = None \<or> persisted s (role R) = Some [] \<longrightarrow>
            messageList (handleRoleChange R seed s) = [\<lparr>mrole = assistant, content = fc R\<rparr>]
          \<and> persisted (handleRoleChange R seed s) (role R)
              = Some [\<lparr>mrole = assistant, content = fc R\<rparr>])
       \<and> (persisted s (role R) = Some ms \<and> ms \<noteq> [] \<longrightarrow>
            messageList (handleRoleChange R seed s) = ms)"
proof -
  have "persisted s (role R)
          = (case seed of Some h' \<Rightarrow> h' (role R) | None \<Rightarrow> persisted s (role R))"
    using assms(1) by (auto simp: load_fst)
  from handleRoleChange_new(1,2) [OF assms(2) this] show ?thesis by auto
qed

lemma switch_role_history_example:
  "persisted streaming (role guanyin) = None
   \<and> messageList (handleRoleChange guanyin None streaming)
       = [\<lparr>mrole = assistant, content = fc guanyin\<rparr>]
   \<and> persisted (handleRoleChange guanyin None streaming) (role guanyin)
       = Some [\<lparr>mrole = assistant, content = fc guanyin\<rparr>]
   \<and> persisted switched (role buddha)
       = Some [\<lparr>mrole = assistant, content = ascii ''Welcome''\<rparr>,
               \<lparr>mrole = user, content = ascii ''hi''\<rparr>]
   \<and> messageList (handleRoleChange buddha None switched)
       = [\<lparr>mrole = assistant, content = ascii ''Welcome''\<rparr>,
          \<lparr>mrole = user, content = ascii ''hi''\<rparr>]"
proof -
  have a: "persisted streaming (role guanyin) = None"
    by code_simp
  have b: "persisted switched (role buddha)
             = Some [\<lparr>mrole = assistant, content = ascii ''Welcome''\<rparr>,
                     \<lparr>mrole = user, content = ascii ''hi''\<rparr>]"
    by code_simp
  have k: "plainKey (role guanyin)" "plainKey (role buddha)"
    by code_simp+
  from switch_role_history [of None streaming guanyin, OF _ k(1)]
    switch_role_history [of None switched buddha
      "[\<lparr>mrole = assistant, content = ascii ''Welcome''\<rparr>, \<lparr>mrole = user, content = ascii ''hi''\<rparr>]",
      OF _ k(2)]
    a b
  show ?thesis by simp
qed

text \<open>
  C3 at the roles whose identifiers are \<open>constructor\<close> and \<open>__proto__\<close>, neither of which
  has a stored history. Switching to \<open>constructor\<close> from the first sample role finds
  the inherited method under that name: the message list stays that of the role left
  behind instead of becoming the welcome message, and nothing is stored for the new
  role. Mounting on \<open>__proto__\<close> does show the welcome message, but the store holds no
  entry for the role afterwards.
\<close>

theorem switch_prototype_names_not_seeded:
  "persisted mounted (role ctorRole) = None
   \<and> currentRole (handleRoleChange ctorRole None mounted) = Some ctorRole
   \<and> messageList (handleRoleChange ctorRole None mounted)
       = [\<lparr>mrole = assistant, content = fc buddha\<rparr>]
   \<and> messageList (handleRoleChange ctorRole None mounted)
       \<noteq> [\<lparr>mrole = assistant, content = fc ctorRole\<rparr>]
   \<and> persisted (handleRoleChange ctorRole None mounted) (role ctorRole) = None
   \<and> messageList protoMounted = [\<lparr>mrole = assistant, content = fc protoRole\<rparr>]
   \<and> persisted protoMounted (role protoRole) = None"
  by code_simp

section \<open>Isolation of the roles' histories\<close>

lemma saveSetting_fields:
  "persisted (saveSetting s) = persisted s"
  "currentRole (saveSetting s) = currentRole s"
  "persisted (handleProviderChange p s) = persisted s"
  "currentRole (handleProviderChange p s) = currentRole s"
  by (simp_all add: saveSetting_def handleProviderChange_def persisted_def loadChatHistory_def
      fun_eq_iff)

lemma archive_other:
  "currentRole (archiveCurrentMessage s) = currentRole s"
  "map_option role (currentRole s) \<noteq> Some k \<Longrightarrow>
   persisted (archiveCurrentMessage s) k = persisted s k"
  by (auto simp: archiveCurrentMessage_def Let_def persisted_upd persisted_saveCurrentMessages
      saveCurrentMessages_fields split: option.splits)

lemma readLoop_fields:
  "currentRole (snd (readLoop rs s)) = currentRole s"
  "persisted (snd (readLoop rs s)) = persisted s"
  "messageList (snd (readLoop rs s)) = messageList s"
  "controller (snd (readLoop rs s)) = controller s"
  "abortControllers (snd (readLoop rs s)) = abortControllers s"
  by (induction rs s rule: readLoop.induct; simp add: persisted_upd Let_def split: option.splits)+

lemma catchBlock_fields:
  "currentRole (catchBlock e s) = currentRole s"
  "persisted (catchBlock e s) = persisted s"
  "messageList (catchBlock e s) = messageList s"
  "controller (catchBlock e s) = controller s"
  "abortControllers (catchBlock e s) = abortControllers s"
  by (simp_all add: catchBlock_def persisted_def fun_eq_iff)

lemma finallyBlock_other:
  "currentRole (finallyBlock s) = currentRole s"
  "map_option role (currentRole s) \<noteq> Some k \<Longrightarrow> persisted (finallyBlock s) k = persisted s k"
  by (simp_all add: finallyBlock_def archive_other)

lemma settle_other:
  "currentRole (settle (c, s)) = currentRole s"
  "map_option role (currentRole s) \<noteq> Some k \<Longrightarrow> persisted (settle (c, s)) k = persisted s k"
  by (cases c; simp add: finallyBlock_other catchBlock_fields)+

lemma settle_readLoop_other:
  "currentRole (settle (readLoop rs s)) = currentRole s"
  "map_option role (currentRole s) \<noteq> Some k \<Longrightarrow>
   persisted (settle (readLoop rs s)) k = persisted s k"
  using settle_other(1) [of "fst (readLoop rs s)" "snd (readLoop rs s)"]
    settle_other(2) [of "snd (readLoop rs s)" k "fst (readLoop rs s)"]
  by (simp_all add: readLoop_fields)

lemma afterFetch_other:
  "currentRole (afterFetch t s) = currentRole s"
  "map_option role (currentRole s) \<noteq> Some k \<Longrightarrow> persisted (afterFetch t s) k = persisted s k"
  by (simp_all add: afterFetch_def finallyBlock_other catchBlock_fields settle_readLoop_other
      split: transport.splits)

lemma clear_other:
  "currentRole (clear s) = currentRole s"
  "map_option role (currentRole s) \<noteq> Some k \<Longrightarrow> persisted (clear s) k = persisted s k"
  by (auto simp: clear_def Let_def persisted_saveCurrentMessages saveCurrentMessages_fields
      persisted_upd split: option.splits)

lemma handleButtonClick_other:
  "currentRole (handleButtonClick s) = currentRole s"
  "map_option role (currentRole s) \<noteq> Some k \<Longrightarrow>
   persisted (handleButtonClick s) k = persisted s k"
  by (auto simp: handleButtonClick_def Let_def issueRequest_fields persisted_saveCurrentMessages
      saveCurrentMessages_fields persisted_upd split: option.splits)

lemma retryLastFetch_other:
  "currentRole (retryLastFetch s) = currentRole s"
  "map_option role (currentRole s) \<noteq> Some k \<Longrightarrow> persisted (retryLastFetch s) k = persisted s k"
  by (auto simp: retryLastFetch_def Let_def issueRequest_fields persisted_saveCurrentMessages
      saveCurrentMessages_fields persisted_upd split: option.splits)

lemma stopStreamFetch_other:
  "currentRole (stopStreamFetch s) = currentRole s"
  "map_option role (currentRole s) \<noteq> Some k \<Longrightarrow> persisted (stopStreamFetch s) k = persisted s k"
  by (auto simp: stopStreamFetch_def archive_other abort_fields split: option.splits)

lemma handleRoleChange_away:
  assumes "map_option role (currentRole s) \<noteq> Some k" and "role new \<noteq> k"
  shows "persisted (handleRoleChange new h s) k = persisted s k"
  using assms by (auto simp: handleRoleChange_other split: option.splits)

lemma perform_away:
  assumes "map_option role (currentRole s) \<noteq> Some k"
    and "map_option role (currentRole (perform a s)) \<noteq> Some k"
  shows "persisted (perform a s) k = persisted s k"
proof (cases a)
  case (SwitchRole r)
  then have "role r \<noteq> k"
    using assms(2) by (simp add: handleRoleChange_fields)
  then show ?thesis
    using SwitchRole assms(1) by (simp add: handleRoleChange_away)
next
  case (SlideChange i)
  show ?thesis
  proof (cases "perform a s = s")
    case True
    then show ?thesis by simp
  next
    case False
    then have p: "perform a s = handleRoleChange (roles s ! i) None s"
      using SlideChange by (simp add: slideChange_def Let_def split: if_splits)
    then have "role (roles s ! i) \<noteq> k"
      using assms(2) by (simp add: handleRoleChange_fields)
    then show ?thesis
      using p assms(1) by (simp add: handleRoleChange_away)
  qed
qed (use assms(1) in \<open>simp_all add: persisted_upd handleButtonClick_other clear_other
      stopStreamFetch_other retryLastFetch_other saveSetting_fields afterFetch_other
      settle_readLoop_other\<close>)

lemma run_away: "awayFrom k as s \<Longrightarrow> persisted (run as s) k = persisted s k"
proof (induction as arbitrary: s)
  case Nil
  then show ?case by simp
next
  case (Cons a as)
  then have "map_option role (currentRole (perform a s)) \<noteq> Some k"
    by (cases as) simp_all
  with Cons show ?case
    by (simp add: perform_away)
qed

text \<open>
  A role \<open>old\<close> is active and the component switches to a different role. Where the
  assignment to the history leaves an entry under \<open>old\<close>'s identifier, the switch
  stores the message list of \<open>old\<close>, as it is at that moment, under that identifier;
  the store keeps the text \<open>JSON.stringify\<close> made of it, and no object of the session.
  After that, whatever sequence of actions follows (further role switches, sends,
  arriving chunks, stops, retries, clears, settings), as long as \<open>old\<close> does not become
  the active role again, the entry the store holds for \<open>old\<close> stays that snapshot:
  nothing done while another role is active reaches it.
\<close>

lemma role_isolation:
  assumes "currentRole s = Some old" and "role new \<noteq> role old"
    and "storable s (role old)"
    and "awayFrom (role old) as (handleRoleChange new seed s)"
  shows "persisted (handleRoleChange new seed s) (role old) = Some (messageList s)
     \<and> persisted (run as (handleRoleChange new seed s)) (role old) = Some (messageList s)"
proof -
  have "persisted (handleRoleChange new seed s) (role old) = Some (messageList s)"
    using assms(1,2,3) by (simp add: handleRoleChange_other)
  with run_away [OF assms(4)] show ?thesis by simp
qed

lemma role_isolation_example:
  "currentRole streaming = Some buddha \<and> role guanyin \<noteq> role buddha
   \<and> awayFrom (role buddha) elsewhere (handleRoleChange guanyin None streaming)
   \<and> persisted (run elsewhere (handleRoleChange guanyin None streaming)) (role buddha)
       = Some (messageList streaming)"
proof -
  have h: "currentRole streaming = Some buddha" "role guanyin \<noteq> role buddha"
    "storable streaming (role buddha)"
    "awayFrom (role buddha) elsewhere (handleRoleChange guanyin None streaming)"
    by code_simp+
  from role_isolation [OF h] h show ?thesis by simp
qed

text \<open>
  C4 at the role whose identifier is \<open>__proto__\<close>: it is active with a conversation of
  three messages and the component switches to another role. No snapshot is persisted
  under \<open>__proto__\<close>: the store holds no entry for it, and on switching back the
  conversation is gone and the welcome message is all there is.
\<close>

theorem switch_away_from_proto_loses_history:
  "currentRole protoAnswered = Some protoRole \<and> role buddha \<noteq> role protoRole
   \<and> length (messageList protoAnswered) = 3
   \<and> persisted (handleRoleChange buddha None protoAnswered) (role protoRole) = None
   \<and> messageList (handleRoleChange protoRole None (handleRoleChange buddha None protoAnswered))
       = [\<lparr>mrole = assistant, content = fc protoRole\<rparr>]"
  by code_simp

section \<open>Streaming\<close>

lemma endsWith_suffix: "endsWith s t \<longleftrightarrow> suffix t s"
  by (simp add: endsWith_def suffix_to_prefix)

lemma readLoop_chunks:
  "readLoop (map chunk cs @ rs) s =
     readLoop rs (s\<lparr>currentAssistantMessage := foldl appendChunk (currentAssistantMessage s) cs\<rparr>)"
proof (induction cs arbitrary: s)
  case Nil
  then show ?case by simp
next
  case (Cons c cs)
  show ?case
  proof (cases "c = newline \<and> endsWith (currentAssistantMessage s) newline")
    case True
    then show ?thesis
      using Cons [of s] by (simp add: chunk_def appendChunk_def endsWith_suffix)
  next
    case False
    then show ?thesis
      using Cons [of "s\<lparr>currentAssistantMessage := currentAssistantMessage s @ c\<rparr>"] Cons [of s]
      by (cases "c = []") (auto simp: chunk_def appendChunk_def endsWith_suffix Let_def)
  qed
qed

lemma signalAborted_buffer:
  "signalAborted (s\<lparr>currentAssistantMessage := b\<rparr>) = signalAborted s"
  by (simp add: signalAborted_def aborted_def split: option.splits)

lemma finally_archives:
  assumes "currentRole s = Some r" and "\<not> signalAborted s" and "currentAssistantMessage s \<noteq> []"
  shows "messageList (finallyBlock s) =
           messageList s @ [\<lparr>mrole = assistant, content = currentAssistantMessage s\<rparr>]"
    and "persisted (finallyBlock s) (role r) =
           (if storable s (role r)
            then Some (messageList s @ [\<lparr>mrole = assistant, content = currentAssistantMessage s\<rparr>])
            else None)"
  using assms archive_fields(1,2) [OF assms(1,3)] by (simp_all add: finallyBlock_def)

lemma issueRequest_storable: "storable (issueRequest s) = storable s"
  by (simp add: storable_def issueRequest_fields fun_eq_iff)

lemma issueRequest_not_aborted:
  "currentRole s = Some r \<Longrightarrow> \<not> signalAborted (issueRequest s)"
  by (simp add: signalAborted_def issueRequest_started)

text \<open>
  The reads of a stream that deliver the chunks \<open>cs\<close>, in that order, leave the loop
  waiting for more, with the buffer extended by the chunks in arrival order, except
  that a chunk that is exactly a newline is dropped when the buffer already ends in a
  newline. In particular a request whose response streams \<open>Hello \<close> and then \<open>world\<close>
  and then ends appends to the message list one assistant message with content
  \<open>Hello world\<close>, and the extended list is the stored entry of the role wherever the
  assignment to the history leaves an entry.
\<close>

lemma chunks_appended_in_order:
  "readLoop (map chunk cs) s =
     (Awaiting, s\<lparr>currentAssistantMessage := foldl appendChunk (currentAssistantMessage s) cs\<rparr>)
   \<and> (currentRole s = Some r \<longrightarrow>
        messageList (requestWithLatestMessage
          (FetchResolves (Response True st True)
             [chunk (ascii ''Hello ''), chunk (ascii ''world''), Resolved None True]) s)
        = messageList s @ [\<lparr>mrole = assistant, content = ascii ''Hello world''\<rparr>])
   \<and> (currentRole s = Some r \<and> storable s (role r) \<longrightarrow>
        persisted (requestWithLatestMessage
          (FetchResolves (Response True st True)
             [chunk (ascii ''Hello ''), chunk (ascii ''world''), Resolved None True]) s) (role r)
        = Some (messageList s @ [\<lparr>mrole = assistant, content = ascii ''Hello world''\<rparr>]))"
proof -
  let ?t = "FetchResolves (Response True st True)
             [chunk (ascii ''Hello ''), chunk (ascii ''world''), Resolved None True]"
  have a: "readLoop (map chunk cs) s =
     (Awaiting, s\<lparr>currentAssistantMessage := foldl appendChunk (currentAssistantMessage s) cs\<rparr>)"
    using readLoop_chunks [of cs "[]" s] by simp
  have b: "messageList (requestWithLatestMessage ?t s)
             = messageList s @ [\<lparr>mrole = assistant, content = ascii ''Hello world''\<rparr>]"
    and c: "storable s (role r) \<longrightarrow>
           persisted (requestWithLatestMessage ?t s) (role r)
             = Some (messageList s @ [\<lparr>mrole = assistant, content = ascii ''Hello world''\<rparr>])"
    if r: "currentRole s = Some r"
  proof -
    let ?i = "issueRequest s"
    let ?b = "?i\<lparr>currentAssistantMessage := ascii ''Hello world''\<rparr>"
    have buf: "appendChunk (appendChunk [] (ascii ''Hello '')) (ascii ''world'')
                 = ascii ''Hello world''"
      by (simp add: appendChunk_def ascii_def newline_def)
    have "readLoop (map chunk [ascii ''Hello '', ascii ''world''] @ [Resolved None True]) ?i
            = (Returned, ?b)"
      unfolding readLoop_chunks by (simp add: issueRequest_started(2) [OF r] buf)
    then have q: "requestWithLatestMessage ?t s = finallyBlock ?b"
      using r by (simp add: requestWithLatestMessage_def afterFetch_def)
    have h: "currentRole ?b = Some r" "\<not> signalAborted ?b" "currentAssistantMessage ?b \<noteq> []"
      by (simp_all add: issueRequest_fields r signalAborted_buffer
          issueRequest_not_aborted [OF r] ascii_def)
    show "messageList (requestWithLatestMessage ?t s)
             = messageList s @ [\<lparr>mrole = assistant, content = ascii ''Hello world''\<rparr>]"
      using finally_archives(1) [OF h] by (simp add: q issueRequest_fields)
    show "storable s (role r) \<longrightarrow>
           persisted (requestWithLatestMessage ?t s) (role r)
             = Some (messageList s @ [\<lparr>mrole = assistant, content = ascii ''Hello world''\<rparr>])"
      using finally_archives(2) [OF h]
      by (simp add: q issueRequest_fields storable_upd issueRequest_storable)
  qed
  from a b c show ?thesis by blast
qed

lemma chunks_appended_in_order_example:
  "currentRole mounted = Some buddha
   \<and> messageList (requestWithLatestMessage
          (FetchResolves (Response True (ascii ''OK'') True)
             [chunk (ascii ''Hello ''), chunk (ascii ''world''), Resolved None True]) mounted)
        = messageList mounted @ [\<lparr>mrole = assistant, content = ascii ''Hello world''\<rparr>]
   \<and> currentAssistantMessage
        (snd (readLoop (map chunk [ascii ''a'', newline, newline, ascii ''b'']) mounted))
        = ascii ''a'' @ newline @ ascii ''b''"
proof -
  have h: "currentRole mounted = Some buddha"
    by code_simp
  have f: "foldl appendChunk (currentAssistantMessage mounted) [ascii ''a'', newline, newline, ascii ''b'']
             = ascii ''a'' @ newline @ ascii ''b''"
    by code_simp
  from chunks_appended_in_order
         [of "[ascii ''a'', newline, newline, ascii ''b'']" mounted buddha "ascii ''OK''"] h f
  show ?thesis by simp
qed

text \<open>
  C5 at the role whose identifier is \<open>__proto__\<close>: the response streams \<open>Hello \<close> and
  \<open>world\<close> and ends. The message \<open>Hello world\<close> is appended to the message list, but it
  is not archived in the store, which holds no entry for the role.
\<close>

theorem hello_world_proto_not_persisted:
  "currentRole protoMounted = Some protoRole
   \<and> messageList (requestWithLatestMessage
        (FetchResolves (Response True (ascii ''OK'') True)
           [chunk (ascii ''Hello ''), chunk (ascii ''world''), Resolved None True]) protoMounted)
       = messageList protoMounted @ [\<lparr>mrole = assistant, content = ascii ''Hello world''\<rparr>]
   \<and> persisted (requestWithLatestMessage
        (FetchResolves (Response True (ascii ''OK'') True)
           [chunk (ascii ''Hello ''), chunk (ascii ''world''), Resolved None True]) protoMounted)
        (role protoRole) = None"
  by code_simp

section \<open>Failures and aborts\<close>

lemma catchBlock_failure:
  assumes "name e \<noteq> ''AbortError''"
  shows "currentAssistantMessage (catchBlock e s) = errorPrefix @ message e"
    and "signalAborted (catchBlock e s) = signalAborted s"
  using assms by (simp_all add: catchBlock_def signalAborted_def aborted_def split: option.splits)

lemma catchBlock_abort: "name e = ''AbortError'' \<Longrightarrow> catchBlock e s = s"
  by (simp add: catchBlock_def)

lemma settle_failure:
  assumes "currentRole s = Some r" and "\<not> signalAborted s" and "name e \<noteq> ''AbortError''"
  shows "messageList (settle (Threw e, s)) =
           messageList s @ [\<lparr>mrole = assistant, content = errorPrefix @ message e\<rparr>]"
    and "storable s (role r) \<Longrightarrow>
         persisted (settle (Threw e, s)) (role r) =
           Some (messageList s @ [\<lparr>mrole = assistant, content = errorPrefix @ message e\<rparr>])"
proof -
  let ?c = "catchBlock e s"
  have c: "currentRole ?c = Some r" "\<not> signalAborted ?c" "currentAssistantMessage ?c \<noteq> []"
    using assms by (simp_all add: catchBlock_fields catchBlock_failure errorPrefix_def)
  show "messageList (settle (Threw e, s)) =
           messageList s @ [\<lparr>mrole = assistant, content = errorPrefix @ message e\<rparr>]"
    using finally_archives(1) [OF c] assms(3) by (simp add: catchBlock_fields catchBlock_failure)
  show "persisted (settle (Threw e, s)) (role r) =
           Some (messageList s @ [\<lparr>mrole = assistant, content = errorPrefix @ message e\<rparr>])"
    if "storable s (role r)"
    using finally_archives(2) [OF c] assms(3) that
    by (simp add: catchBlock_fields catchBlock_failure storable_def)
qed

lemma finallyBlock_cases:
  "messageList (finallyBlock s) = messageList s
   \<or> (currentAssistantMessage s \<noteq> []
      \<and> messageList (finallyBlock s) =
          messageList s @ [\<lparr>mrole = assistant, content = currentAssistantMessage s\<rparr>])"
  by (auto simp: finallyBlock_def archiveCurrentMessage_def Let_def saveCurrentMessages_fields
      split: option.splits)

lemma stop_then_abort:
  assumes "controller s = Some c" and "c < length (abortControllers s)"
    and "currentRole s = Some r" and "name e = ''AbortError''"
  shows "messageList (settle (Threw e, stopStreamFetch s)) =
           messageList s @ (if currentAssistantMessage s = [] then []
                            else [\<lparr>mrole = assistant, content = currentAssistantMessage s\<rparr>])"
proof (cases "currentAssistantMessage s = []")
  case True
  then have st: "stopStreamFetch s = abort c s"
    using assms(1) by (simp add: stopStreamFetch_def archive_empty abort_fields)
  have "signalAborted (abort c s)"
    using assms(1,2) by (simp add: signalAborted_def aborted_def abort_def)
  then show ?thesis
    using True assms(4) by (simp add: st catchBlock_abort finallyBlock_def abort_fields)
next
  case False
  let ?a = "abort c s"
  have st: "stopStreamFetch s = archiveCurrentMessage ?a"
    using assms(1) by (simp add: stopStreamFetch_def)
  have r: "currentRole ?a = Some r" and b: "currentAssistantMessage ?a \<noteq> []"
    using assms False by (simp_all add: abort_fields)
  note f = archive_fields [OF r b]
  have "finallyBlock (stopStreamFetch s) = stopStreamFetch s"
    using f by (simp add: st finallyBlock_def archive_empty)
  then show ?thesis
    using False f(1) assms(4) by (simp add: st catchBlock_abort abort_fields)
qed

text \<open>
  A request is in flight for the active role and the controller that the signal
  \<open>controller\<close> holds has not been aborted. A response with a non-success status, a
  response without a body, a fetch that rejects and a read that rejects in the middle
  of the stream, with an error whose name is not \<open>AbortError\<close>, each append to the
  message list one assistant message made of the error prefix followed by the failure
  text (the status text, \<open>No data\<close>, the error's message), and the list so extended is
  the stored entry of the role wherever the assignment to the history leaves an entry.
  An error named \<open>AbortError\<close> leaves the \<open>catch\<close> block without any change:
  no error text is produced, and the message list afterwards is the old one, possibly
  followed by the partial text. After the user's stop, the message list is the old one
  followed by the partial text if there was any, and by nothing else.
\<close>

lemma failures_archived_aborts_silent:
  assumes "currentRole s = Some r"
  shows "(\<not> signalAborted s \<longrightarrow>
            messageList (afterFetch (FetchResolves (Response False st b) rs) s)
              = messageList s @ [\<lparr>mrole = assistant, content = errorPrefix @ st\<rparr>]
          \<and> messageList (afterFetch (FetchResolves (Response True st False) rs) s)
              = messageList s @ [\<lparr>mrole = assistant, content = errorPrefix @ ascii ''No data''\<rparr>])
       \<and> (\<not> signalAborted s \<and> name e \<noteq> ''AbortError'' \<longrightarrow>
            messageList (afterFetch (FetchRejects e) s)
              = messageList s @ [\<lparr>mrole = assistant, content = errorPrefix @ message e\<rparr>]
          \<and> messageList (settle (readLoop (map chunk cs @ [Rejected e]) s))
              = messageList s @ [\<lparr>mrole = assistant, content = errorPrefix @ message e\<rparr>]
          \<and> (storable s (role r) \<longrightarrow>
               persisted (settle (Threw e, s)) (role r)
                 = Some (messageList s
                         @ [\<lparr>mrole = assistant, content = errorPrefix @ message e\<rparr>])))
       \<and> (name e = ''AbortError'' \<longrightarrow>
            catchBlock e s = s
          \<and> (messageList (settle (Threw e, s)) = messageList s
             \<or> messageList (settle (Threw e, s))
                 = messageList s @ [\<lparr>mrole = assistant, content = currentAssistantMessage s\<rparr>]))
       \<and> (name e = ''AbortError'' \<and> controller s = Some c \<and> c < length (abortControllers s) \<longrightarrow>
            messageList (settle (Threw e, stopStreamFetch s))
              = messageList s @ (if currentAssistantMessage s = [] then []
                                 else [\<lparr>mrole = assistant, content = currentAssistantMessage s\<rparr>]))"
proof -
  have n: "name (Error ''Error'' m) \<noteq> ''AbortError''" for m
    by simp
  have a: "messageList (afterFetch (FetchResolves (Response False st b) rs) s)
              = messageList s @ [\<lparr>mrole = assistant, content = errorPrefix @ st\<rparr>]"
    and a': "messageList (afterFetch (FetchResolves (Response True st False) rs) s)
              = messageList s @ [\<lparr>mrole = assistant, content = errorPrefix @ ascii ''No data''\<rparr>]"
    if "\<not> signalAborted s"
    using settle_failure(1) [OF assms that n] by (simp_all add: afterFetch_def)
  have b: "messageList (afterFetch (FetchRejects e) s)
              = messageList s @ [\<lparr>mrole = assistant, content = errorPrefix @ message e\<rparr>]"
    and b': "messageList (settle (readLoop (map chunk cs @ [Rejected e]) s))
              = messageList s @ [\<lparr>mrole = assistant, content = errorPrefix @ message e\<rparr>]"
    and b'': "storable s (role r) \<longrightarrow>
               persisted (settle (Threw e, s)) (role r)
                 = Some (messageList s
                         @ [\<lparr>mrole = assistant, content = errorPrefix @ message e\<rparr>])"
    if h: "\<not> signalAborted s" "name e \<noteq> ''AbortError''"
  proof -
    show "messageList (afterFetch (FetchRejects e) s)
              = messageList s @ [\<lparr>mrole = assistant, content = errorPrefix @ message e\<rparr>]"
      using settle_failure(1) [OF assms h] by (simp add: afterFetch_def)
    let ?s = "s\<lparr>currentAssistantMessage := foldl appendChunk (currentAssistantMessage s) cs\<rparr>"
    have "messageList (settle (Threw e, ?s))
            = messageList ?s @ [\<lparr>mrole = assistant, content = errorPrefix @ message e\<rparr>]"
      by (rule settle_failure(1) [of _ r]) (simp_all add: assms h signalAborted_buffer)
    then show "messageList (settle (readLoop (map chunk cs @ [Rejected e]) s))
              = messageList s @ [\<lparr>mrole = assistant, content = errorPrefix @ message e\<rparr>]"
      unfolding readLoop_chunks by simp
    show "storable s (role r) \<longrightarrow>
               persisted (settle (Threw e, s)) (role r)
                 = Some (messageList s
                         @ [\<lparr>mrole = assistant, content = errorPrefix @ message e\<rparr>])"
      using settle_failure(2) [OF assms h] by blast
  qed
  have c: "catchBlock e s = s
          \<and> (messageList (settle (Threw e, s)) = messageList s
             \<or> messageList (settle (Threw e, s))
                 = messageList s @ [\<lparr>mrole = assistant, content = currentAssistantMessage s\<rparr>])"
    if "name e = ''AbortError''"
    using that finallyBlock_cases [of s] by (auto simp: catchBlock_abort)
  have d: "messageList (settle (Threw e, stopStreamFetch s))
              = messageList s @ (if currentAssistantMessage s = [] then []
                                 else [\<lparr>mrole = assistant, content = currentAssistantMessage s\<rparr>])"
    if "name e = ''AbortError''" "controller s = Some c" "c < length (abortControllers s)"
    by (rule stop_then_abort [OF that(2,3) assms that(1)])
  from a a' b b' b'' c d show ?thesis
    by blast
qed

lemma failures_archived_aborts_silent_example:
  "currentRole asked = Some buddha \<and> \<not> signalAborted asked
   \<and> messageList (afterFetch (FetchResolves (Response False (ascii ''Bad Gateway'') True) []) asked)
       = messageList asked @ [\<lparr>mrole = assistant, content = errorPrefix @ ascii ''Bad Gateway''\<rparr>]
   \<and> messageList (afterFetch (FetchRejects (Error ''TypeError'' (ascii ''Failed to fetch''))) asked)
       = messageList asked
         @ [\<lparr>mrole = assistant, content = errorPrefix @ ascii ''Failed to fetch''\<rparr>]
   \<and> controller streaming = Some 0 \<and> 0 < length (abortControllers streaming)
   \<and> messageList (settle (Threw (Error ''AbortError'' []), stopStreamFetch streaming))
       = messageList streaming @ [\<lparr>mrole = assistant, content = ascii ''partial answer''\<rparr>]
   \<and> catchBlock (Error ''AbortError'' []) streaming = streaming"
proof -
  have h: "currentRole asked = Some buddha" "\<not> signalAborted asked"
    "currentRole streaming = Some buddha" "controller streaming = Some 0"
    "0 < length (abortControllers streaming)"
    "currentAssistantMessage streaming = ascii ''partial answer''"
    by code_simp+
  have n: "ascii ''partial answer'' \<noteq> []"
    by (simp add: ascii_def)
  from failures_archived_aborts_silent
         [OF h(1), of "ascii ''Bad Gateway''" True "[]" "Error ''TypeError'' (ascii ''Failed to fetch'')"]
       failures_archived_aborts_silent
         [OF h(3), of _ _ _ "Error ''AbortError'' []" _ 0]
       h n
  show ?thesis by simp
qed

text \<open>
  C6 at the role whose identifier is \<open>__proto__\<close>: the response to its request has a
  non-success status. The error text is appended to the message list as an assistant
  message, but the turn is not archived in the store, which holds no entry for the
  role.
\<close>

theorem failure_proto_not_persisted:
  "currentRole protoAsked = Some protoRole \<and> \<not> signalAborted protoAsked
   \<and> messageList (afterFetch (FetchResolves (Response False (ascii ''Bad Gateway'') True) [])
        protoAsked)
       = messageList protoAsked
         @ [\<lparr>mrole = assistant, content = errorPrefix @ ascii ''Bad Gateway''\<rparr>]
   \<and> persisted (afterFetch (FetchResolves (Response False (ascii ''Bad Gateway'') True) [])
        protoAsked) (role protoRole) = None"
  by code_simp

section \<open>Retry\<close>

lemma retry_fields:
  assumes "currentRole s = Some r" and "messageList s = ms @ [m]" and "mrole m = assistant"
  shows "retryLastFetch s =
           issueRequest (saveCurrentMessages r ms (s\<lparr>messageList := ms\<rparr>))"
  using assms by (simp add: retryLastFetch_def Let_def slice_butlast nth_append)

text \<open>
  With a role active and a message list that ends in an assistant message,
  \<open>retryLastFetch\<close> removes that last message and no other, makes the shortened list
  the stored entry of the role wherever the assignment to the history leaves an entry,
  and posts exactly one request, whose messages are built from the shortened list. If the message list is empty or its last message is not an
  assistant message, \<open>retryLastFetch\<close> returns the state unchanged, so no request is
  posted.
\<close>

lemma retry_regenerates:
  "(currentRole s = Some r \<and> messageList s = ms @ [m] \<and> mrole m = assistant \<longrightarrow>
      messageList (retryLastFetch s) = ms
    \<and> (storable s (role r) \<longrightarrow> persisted (retryLastFetch s) (role r) = Some ms)
    \<and> posted (retryLastFetch s) =
        posted s @ [\<lparr>body_setting = (setting s)(''role'' \<mapsto> JStr (role r)),
                     body_messages = requestMessageList (s\<lparr>messageList := ms\<rparr>) r,
                     body_time = clock s, signal = length (abortControllers s)\<rparr>])
   \<and> (messageList s = [] \<or> mrole (last (messageList s)) \<noteq> assistant \<longrightarrow>
        retryLastFetch s = s)"
proof -
  have a: "messageList (retryLastFetch s) = ms
    \<and> (storable s (role r) \<longrightarrow> persisted (retryLastFetch s) (role r) = Some ms)
    \<and> posted (retryLastFetch s) =
        posted s @ [\<lparr>body_setting = (setting s)(''role'' \<mapsto> JStr (role r)),
                     body_messages = requestMessageList (s\<lparr>messageList := ms\<rparr>) r,
                     body_time = clock s, signal = length (abortControllers s)\<rparr>]"
    if h: "currentRole s = Some r" "messageList s = ms @ [m]" "mrole m = assistant"
  proof -
    let ?t = "saveCurrentMessages r ms (s\<lparr>messageList := ms\<rparr>)"
    have t: "currentRole ?t = Some r"
      using h by (simp add: saveCurrentMessages_fields)
    have q: "requestMessageList ?t r = requestMessageList (s\<lparr>messageList := ms\<rparr>) r"
      by (rule requestMessageList_cong) (simp_all add: saveCurrentMessages_fields)
    have f: "setting ?t = setting s" "clock ?t = clock s"
      by (simp_all add: saveCurrentMessages_def split_beta)
    show ?thesis
      unfolding retry_fields [OF h]
      by (simp add: issueRequest_fields issueRequest_posted [OF t] q f saveCurrentMessages_fields
          persisted_saveCurrentMessages storable_upd)
  qed
  have b: "retryLastFetch s = s" if "messageList s = [] \<or> mrole (last (messageList s)) \<noteq> assistant"
    using that by (auto simp: retryLastFetch_def Let_def last_conv_nth split: option.splits)
  from a b show ?thesis by blast
qed

lemma retry_regenerates_example:
  "currentRole answered = Some buddha
   \<and> messageList answered
       = [\<lparr>mrole = assistant, content = ascii ''Welcome''\<rparr>, \<lparr>mrole = user, content = ascii ''hi''\<rparr>]
         @ [\<lparr>mrole = assistant, content = ascii ''partial answer''\<rparr>]
   \<and> messageList (retryLastFetch answered)
       = [\<lparr>mrole = assistant, content = ascii ''Welcome''\<rparr>, \<lparr>mrole = user, content = ascii ''hi''\<rparr>]
   \<and> persisted (retryLastFetch answered) (role buddha)
       = Some [\<lparr>mrole = assistant, content = ascii ''Welcome''\<rparr>,
               \<lparr>mrole = user, content = ascii ''hi''\<rparr>]
   \<and> length (posted (retryLastFetch answered)) = Suc (length (posted answered))
   \<and> mrole (last (messageList asked)) \<noteq> assistant
   \<and> retryLastFetch asked = asked"
proof -
  have h: "currentRole answered = Some buddha"
    "messageList answered
       = [\<lparr>mrole = assistant, content = ascii ''Welcome''\<rparr>, \<lparr>mrole = user, content = ascii ''hi''\<rparr>]
         @ [\<lparr>mrole = assistant, content = ascii ''partial answer''\<rparr>]"
    "mrole (last (messageList asked)) \<noteq> assistant"
    "storable answered (role buddha)"
    by code_simp+
  from retry_regenerates
         [of answered buddha
             "[\<lparr>mrole = assistant, content = ascii ''Welcome''\<rparr>, \<lparr>mrole = user, content = ascii ''hi''\<rparr>]"
             "\<lparr>mrole = assistant, content = ascii ''partial answer''\<rparr>"]
       retry_regenerates [of asked] h
  show ?thesis by simp
qed

text \<open>
  C7 at the role whose identifier is \<open>__proto__\<close>, after an answer has been archived:
  retry removes the last message from the message list and posts one request, but the
  shortened list is not persisted; the store holds no entry for the role.
\<close>

theorem retry_proto_not_persisted:
  "currentRole protoAnswered = Some protoRole
   \<and> mrole (last (messageList protoAnswered)) = assistant
   \<and> messageList (retryLastFetch protoAnswered) = butlast (messageList protoAnswered)
   \<and> length (posted (retryLastFetch protoAnswered)) = Suc (length (posted protoAnswered))
   \<and> persisted (retryLastFetch protoAnswered) (role protoRole) = None"
  by code_simp

section \<open>Loading the history\<close>

text \<open>
  C8, as stated, fails: the empty string is not JSON (\<open>JSON.parse\<close> throws on it), yet
  with the empty string stored \<open>loadChatHistory\<close> reports nothing, because the guard of
  line 27 treats a falsy text like a missing key.
\<close>

theorem loadChatHistory_empty_text_silent:
  "chat_history_item blankStorage = Some EmptyText
   \<and> JSON_parse (EmptyText :: history stored_text) = Inl SyntaxError
   \<and> loadChatHistory blankStorage = (Map.empty, [])"
  by (simp add: blankStorage_def loadChatHistory_def)

text \<open>
  C8, amended. \<open>loadChatHistory\<close> returns the empty mapping and reports nothing when
  the key is missing or the stored text is the empty string; it returns the empty
  mapping and reports the parse failure on the console when the stored text is not
  empty and \<open>JSON.parse\<close> throws on it. It always returns a value.
\<close>

theorem loadChatHistory_never_fatal:
  "(chat_history_item ls = None \<or> chat_history_item ls = Some EmptyText \<longrightarrow>
      loadChatHistory ls = (Map.empty, []))
   \<and> (chat_history_item ls = Some t \<and> truthy t \<and> JSON_parse t = Inl e \<longrightarrow>
        loadChatHistory ls = (Map.empty, [console_error_labelled parseFailedLabel e]))"
  by (auto simp: loadChatHistory_def)

theorem loadChatHistory_never_fatal_witness:
  "chat_history_item emptyStorage = None \<and> loadChatHistory emptyStorage = (Map.empty, [])
   \<and> chat_history_item garbledStorage = Some Unparsable \<and> truthy (Unparsable :: history stored_text)
   \<and> JSON_parse (Unparsable :: history stored_text) = Inl SyntaxError
   \<and> loadChatHistory garbledStorage
       = (Map.empty, [console_error_labelled parseFailedLabel SyntaxError])"
proof -
  have h: "chat_history_item emptyStorage = None" "chat_history_item garbledStorage = Some Unparsable"
    by (simp_all add: emptyStorage_def garbledStorage_def)
  from loadChatHistory_never_fatal [of emptyStorage]
       loadChatHistory_never_fatal [of garbledStorage Unparsable SyntaxError] h
  show ?thesis by simp
qed

section \<open>Settings\<close>

text \<open>
  C9 at settings saved before the provider selection existed, and in a browser with
  no saved settings: after loading, \<open>modelProvider\<close> and the two provider keys, which
  the interface \<open>Setting\<close> requires, are undefined, and no provider is checked. The
  defaults of Generator.tsx still carry \<open>openaiAPIKey\<close> and none of the new fields.
\<close>

theorem settings_defaults_incomplete:
  "setting (loadSetting (initialState oldStorage 0)) ''modelProvider'' = None
   \<and> setting (loadSetting (initialState oldStorage 0)) ''siliconflowAPIKey'' = None
   \<and> setting (loadSetting (initialState oldStorage 0)) ''threeohtwoAPIKey'' = None
   \<and> checkedProviders (setting (loadSetting (initialState oldStorage 0))) = []
   \<and> setting (loadSetting (initialState emptyStorage 0)) ''modelProvider'' = None
   \<and> checkedProviders (setting (loadSetting (initialState emptyStorage 0))) = []
   \<and> ''modelProvider'' \<in> set settingFields"
  by (simp add: loadSetting_def initialState_def oldStorage_def emptyStorage_def
      oldSavedSetting_def defaultSetting_def checkedProviders_def settingFields_def map_add_def)


end
